theory Spec2Isabelle
  imports Complex_Main
begin

section \<open>Arrays, errors and the numpy primitives used by snob\<close>

text \<open>
  The two modules \<^verbatim>\<open>snob/mixture_ka.py\<close> and \<^verbatim>\<open>snob/mixture_search.py\<close> compute
  with numpy arrays of IEEE doubles. The embedding keeps the shape of the arrays (a vector
  is a list, a matrix a list of rows, the data \<open>y\<close> a list of \<open>N\<close> observations of \<open>D\<close>
  coordinates, a responsibility matrix a list of \<open>K\<close> rows of \<open>N\<close> entries) and computes
  with real numbers: rounding, overflow and underflow are not modelled.

  numpy does not raise on a division by zero or on the logarithm of a non-positive number:
  it produces \<open>inf\<close> or \<open>nan\<close> and goes on. Wherever the source would produce such a value the
  model says what the source does with it when that is decided on the spot (an
  \<^verbatim>\<open>assert np.isfinite(...)\<close> raises, a clip maps \<open>inf\<close> to the bound), and otherwise stops
  with the error \<open>NonFinite\<close>, which is not a Python exception but the mark that the run
  has left the real numbers. The scorer \<^verbatim>\<open>mixture_search._message_length\<close> is
  followed further: its terms are values of the type \<open>ext\<close>, a real number, \<open>inf\<close>,
  \<open>-inf\<close> or \<open>nan\<close>, because its assertions decide on them and it can return \<open>inf\<close>.
  Likewise \<open>Unmodelled\<close> marks the inputs the model does not
  follow: covariance arrays whose shape does not fit the covariance type, and
  covariance-type strings that are a fragment of \<^verbatim>\<open>"full"\<close> or \<^verbatim>\<open>"diag"\<close> without being
  one of them. Every Python exception the source can raise is an \<open>Inl\<close> value.
\<close>

type_synonym vec = "real list"
type_synonym mat = "real list list"

datatype error =
    ValueError
  | NotImplementedError
  | AssertionError
  | LinAlgError
  | IndexError
  | NameError
  | AttributeError
  | NonFinite
  | Unmodelled

text \<open>\<^verbatim>\<open>N, D = y.shape\<close>: the number of columns of a list of rows.\<close>

definition ncols :: "'a list list \<Rightarrow> nat" where
  "ncols y = (case y of [] \<Rightarrow> 0 | r # _ \<Rightarrow> length r)"

definition vsub :: "vec \<Rightarrow> vec \<Rightarrow> vec" where
  "vsub a b = map (\<lambda>(x, y). x - y) (zip a b)"

definition vadd :: "vec \<Rightarrow> vec \<Rightarrow> vec" where
  "vadd a b = map (\<lambda>(x, y). x + y) (zip a b)"

definition vmul :: "vec \<Rightarrow> vec \<Rightarrow> vec" where
  "vmul a b = map (\<lambda>(x, y). x * y) (zip a b)"

definition vdot :: "vec \<Rightarrow> vec \<Rightarrow> real" where
  "vdot a b = sum_list (vmul a b)"

definition column :: "'a list list \<Rightarrow> nat \<Rightarrow> 'a list" where
  "column A i = map (\<lambda>row. row ! i) A"

text \<open>\<^verbatim>\<open>np.sum(A, axis=1)\<close> and \<^verbatim>\<open>np.sum(A, axis=0)\<close> of a matrix with \<open>N\<close> columns.\<close>

definition sum_axis1 :: "mat \<Rightarrow> vec" where
  "sum_axis1 A = map sum_list A"

definition sum_axis0 :: "nat \<Rightarrow> mat \<Rightarrow> vec" where
  "sum_axis0 N A = map (\<lambda>i. sum_list (column A i)) [0..<N]"

text \<open>\<^verbatim>\<open>np.clip(x, lo, hi)\<close> on a finite number.\<close>

definition clip :: "real \<Rightarrow> real \<Rightarrow> real \<Rightarrow> real" where
  "clip lo hi x = (if x < lo then lo else if hi < x then hi else x)"

text \<open>\<^verbatim>\<open>np.delete(a, index, axis=0)\<close> for an index in range.\<close>

definition np_delete :: "'a list \<Rightarrow> nat \<Rightarrow> 'a list" where
  "np_delete xs i = take i xs @ drop (Suc i) xs"

text \<open>\<^verbatim>\<open>np.eye(D)\<close>, \<^verbatim>\<open>np.dot(A, B)\<close> for matrices, \<^verbatim>\<open>np.dot(A, v)\<close> and \<^verbatim>\<open>A.T\<close>.\<close>

definition eye :: "nat \<Rightarrow> mat" where
  "eye D = map (\<lambda>a. map (\<lambda>b. if a = b then 1 else 0) [0..<D]) [0..<D]"

definition mat_T :: "mat \<Rightarrow> mat" where
  "mat_T A = map (column A) [0..<ncols A]"

definition mat_vec :: "mat \<Rightarrow> vec \<Rightarrow> vec" where
  "mat_vec A v = map (\<lambda>row. vdot row v) A"

definition mat_mul :: "mat \<Rightarrow> mat \<Rightarrow> mat" where
  "mat_mul A B = map (\<lambda>row. map (\<lambda>j. vdot row (column B j)) [0..<ncols B]) A"

definition trace :: "mat \<Rightarrow> real" where
  "trace A = (\<Sum>i\<leftarrow>[0..<length A]. A ! i ! i)"

text \<open>
  \<^verbatim>\<open>np.linalg.det\<close>, by expansion along the first row, and the inverse that both modules
  build from the singular value decomposition,
  \<^verbatim>\<open>np.dot(np.dot(V.T, np.linalg.inv(np.diag(S))), U.T)\<close>: from \<open>C = U diag(S) V\<close> this
  is the inverse of \<open>C\<close>, and \<^verbatim>\<open>np.linalg.inv\<close> raises \<^verbatim>\<open>LinAlgError\<close> when a singular
  value is zero, that is when \<open>C\<close> is singular. The inverse is written with cofactors.
\<close>

fun det :: "mat \<Rightarrow> real" where
  "det [] = 1"
| "det (r # rs) =
     (\<Sum>j\<leftarrow>[0..<length r]. (- 1) ^ j * r ! j * det (map (\<lambda>row. np_delete row j) rs))"

definition minor :: "mat \<Rightarrow> nat \<Rightarrow> nat \<Rightarrow> mat" where
  "minor A i j = map (\<lambda>row. np_delete row j) (np_delete A i)"

definition svd_inverse :: "mat \<Rightarrow> error + mat" where
  "svd_inverse C =
     (if det C = 0 then Inl LinAlgError
      else Inr (map (\<lambda>i. map (\<lambda>j. (- 1) ^ (i + j) * det (minor C j i) / det C)
                            [0..<length C]) [0..<length C]))"

section \<open>Covariance estimators of mixture\_search\<close>

text \<open>
  In \<^verbatim>\<open>mixture_search\<close> the covariance of a component is a \<open>D \<times> D\<close> matrix under the
  \<^verbatim>\<open>"full"\<close> structure and a vector of \<open>D\<close> variances under \<^verbatim>\<open>"diag"\<close>.
\<close>

datatype covariance = Full mat | Diag vec

text \<open>\<^verbatim>\<open>denominator = nm - 1 if nm > 1 else nm\<close>, the same line in both estimators.\<close>

definition denominator :: "real \<Rightarrow> real" where
  "denominator nm = (if nm > 1 then nm - 1 else nm)"

text \<open>\<^verbatim>\<open>np.dot(rm * diff.T, diff)\<close>: the \<open>D \<times> D\<close> weighted scatter.\<close>

definition scatter :: "nat \<Rightarrow> vec \<Rightarrow> vec list \<Rightarrow> mat" where
  "scatter D rm diff =
     map (\<lambda>a. map (\<lambda>b. (\<Sum>(r, d)\<leftarrow>zip rm diff. r * d ! a * d ! b)) [0..<D]) [0..<D]"

text \<open>\<^verbatim>\<open>np.dot(rm, diff**2)\<close>: the \<open>D\<close> weighted sums of squares.\<close>

definition scatter_diag :: "nat \<Rightarrow> vec \<Rightarrow> vec list \<Rightarrow> vec" where
  "scatter_diag D rm diff = map (\<lambda>a. (\<Sum>(r, d)\<leftarrow>zip rm diff. r * (d ! a)\<^sup>2)) [0..<D]"

text \<open>
  One pass of the loop of \<^verbatim>\<open>_estimate_covariance_matrix_full\<close> (component mean \<open>mu\<close>,
  responsibility row \<open>rm\<close>, membership \<open>nm\<close>). A zero denominator makes the entries
  \<open>inf\<close> or \<open>nan\<close>: the component is \<open>None\<close>.
\<close>

definition cov_full_row :: "vec list \<Rightarrow> real \<Rightarrow> vec \<Rightarrow> vec \<Rightarrow> real \<Rightarrow> mat option" where
  "cov_full_row y covariance_regularization mu rm nm =
     (let D = ncols y;
          diff = map (\<lambda>yi. vsub yi mu) y
      in if denominator nm = 0 then None
         else Some (map (\<lambda>(srow, irow). map (\<lambda>(s, i). s / denominator nm
                                               + covariance_regularization * i) (zip srow irow))
                     (zip (scatter D rm diff) (eye D))))"

definition estimate_covariance_matrix_full ::
  "vec list \<Rightarrow> mat \<Rightarrow> vec list \<Rightarrow> real \<Rightarrow> mat option list" where
  "estimate_covariance_matrix_full y responsibility mean covariance_regularization =
     (let membership = sum_axis1 responsibility
      in map (\<lambda>(mu, rm, nm). cov_full_row y covariance_regularization mu rm nm)
           (zip mean (zip responsibility membership)))"

definition cov_diag_row :: "vec list \<Rightarrow> real \<Rightarrow> vec \<Rightarrow> vec \<Rightarrow> real \<Rightarrow> vec option" where
  "cov_diag_row y covariance_regularization mu rm nm =
     (let D = ncols y;
          diff = map (\<lambda>yi. vsub yi mu) y
      in if denominator nm = 0 then None
         else Some (map (\<lambda>s. s / denominator nm + covariance_regularization)
                     (scatter_diag D rm diff)))"

definition estimate_covariance_matrix_diag ::
  "vec list \<Rightarrow> mat \<Rightarrow> vec list \<Rightarrow> real \<Rightarrow> vec option list" where
  "estimate_covariance_matrix_diag y responsibility mean covariance_regularization =
     (let membership = sum_axis1 responsibility
      in map (\<lambda>(mu, rm, nm). cov_diag_row y covariance_regularization mu rm nm)
           (zip mean (zip responsibility membership)))"

text \<open>
  \<^verbatim>\<open>_estimate_covariance_matrix\<close> looks the estimator up by the covariance type and
  raises \<^verbatim>\<open>ValueError("unknown covariance type")\<close> for any other string.
\<close>

definition estimate_covariance_matrix ::
  "vec list \<Rightarrow> mat \<Rightarrow> vec list \<Rightarrow> string \<Rightarrow> real \<Rightarrow> error + covariance option list" where
  "estimate_covariance_matrix y responsibility mean covariance_type covariance_regularization =
     (if covariance_type = ''full''
        then Inr (map (map_option Full)
               (estimate_covariance_matrix_full y responsibility mean covariance_regularization))
      else if covariance_type = ''diag''
        then Inr (map (map_option Diag)
               (estimate_covariance_matrix_diag y responsibility mean covariance_regularization))
      else Inl ValueError)"

section \<open>mixture\_ka: responsibilities and the expectation step\<close>

text \<open>
  \<^verbatim>\<open>eps = (7./3 - 4./3 - 1)\<close> is, in double arithmetic, the machine precision
  \<open>2\<^sup>-\<^sup>5\<^sup>2\<close> (in exact arithmetic the expression would be zero, so the constant is
  written out).
\<close>

definition eps :: real where
  "eps = 1 / 2 ^ 52"

text \<open>
  One row of the numerator of \<^verbatim>\<open>mixture_ka.responsibility_matrix\<close>:
  \<^verbatim>\<open>scalar * weight[k] * det(cov_k)**(-0.5) * exp(-0.5 * sum(O.T * dot(Cinv, O.T), axis=0))\<close>.
\<close>

definition ka_numerator_row :: "vec list \<Rightarrow> vec \<Rightarrow> mat \<Rightarrow> real \<Rightarrow> mat \<Rightarrow> vec" where
  "ka_numerator_row y mu_k cov_k weight_k Cinv =
     (let D = ncols y;
          scalar = (2 * pi) powr (- real D / 2)
      in map (\<lambda>y_i. let offset = vsub y_i mu_k
                    in scalar * weight_k * det cov_k powr (- 1 / 2)
                       * exp (- 1 / 2 * vdot offset (mat_vec Cinv offset))) y)"

text \<open>The loop over the components; the inverse of a singular covariance raises.\<close>

fun ka_numerator :: "vec list \<Rightarrow> (vec \<times> mat \<times> real) list \<Rightarrow> error + mat" where
  "ka_numerator y [] = Inr []"
| "ka_numerator y ((mu_k, cov_k, weight_k) # rest) =
     (case svd_inverse cov_k of
        Inl e \<Rightarrow> Inl e
      | Inr Cinv \<Rightarrow>
          (case ka_numerator y rest of
             Inl e \<Rightarrow> Inl e
           | Inr rows \<Rightarrow> Inr (ka_numerator_row y mu_k cov_k weight_k Cinv # rows)))"

text \<open>
  \<^verbatim>\<open>mixture_ka.responsibility_matrix\<close> with \<^verbatim>\<open>full_output=True\<close>: the responsibility
  matrix, the numerator and the normalization constants. A negative determinant makes
  \<^verbatim>\<open>det**(-0.5)\<close> a \<open>nan\<close>, which the final assertion
  \<^verbatim>\<open>assert np.all(np.isfinite(responsibility))\<close> refuses.
\<close>

definition ka_responsibility_matrix ::
  "vec list \<Rightarrow> vec list \<Rightarrow> mat list \<Rightarrow> real list \<Rightarrow> error + (mat \<times> mat \<times> vec)" where
  "ka_responsibility_matrix y mu cov weight =
     (let N = length y
      in case ka_numerator y (zip mu (zip cov weight)) of
           Inl e \<Rightarrow> Inl e
         | Inr numerator \<Rightarrow>
             if list_ex (\<lambda>(cov_k, weight_k). det cov_k < 0) (zip cov weight)
             then Inl AssertionError
             else
               let denom = map (clip eps (10 * 10 ^ 8)) (sum_axis0 N numerator);
                   clipped = map (\<lambda>row. map (\<lambda>(n, d). clip eps 1 (n / d)) (zip row denom))
                               numerator;
                   total = sum_axis0 N clipped;
                   responsibility = map (\<lambda>row. map (\<lambda>(r, s). r / s) (zip row total)) clipped
               in Inr (responsibility, numerator, denom))"

text \<open>\<^verbatim>\<open>mixture_ka._parameters_per_component\<close>.\<close>

definition parameters_per_component :: "nat \<Rightarrow> string \<Rightarrow> error + nat" where
  "parameters_per_component D covariance_type =
     (if covariance_type = ''free'' then Inr (D + D * (D + 1) div 2)
      else if covariance_type = ''diag'' then Inr (2 * D)
      else if covariance_type = ''tied'' then Inr D
      else if covariance_type = ''tied_diag'' then Inr D
      else Inl ValueError)"

text \<open>
  \<^verbatim>\<open>mixture_ka._expectation\<close>: the responsibility matrix, the log-likelihood and what
  its docstring calls the change in message length. The only check is
  \<^verbatim>\<open>assert np.isfinite(log_likelihood)\<close>; the normalization constants are clipped to at
  least \<open>eps\<close>, so their logarithms are finite. The logarithm of a non-positive weight
  or of \<open>N = 0\<close> leaves the real numbers.
\<close>

definition ka_expectation ::
  "vec list \<Rightarrow> vec list \<Rightarrow> mat list \<Rightarrow> real list \<Rightarrow> nat \<Rightarrow> error + (mat \<times> real \<times> real)" where
  "ka_expectation y mu cov weight N_component_pars =
     (case ka_responsibility_matrix y mu cov weight of
        Inl e \<Rightarrow> Inl e
      | Inr (responsibility, numerator, normalization_constants) \<Rightarrow>
          let log_likelihood = (\<Sum>c\<leftarrow>normalization_constants. ln c);
              N = length y;
              K = length weight;
              delta_length = - log_likelihood
                + real N_component_pars / 2 * (\<Sum>w\<leftarrow>weight. ln w)
                + (real N_component_pars / 2 + 1 / 2) * real K * ln (real N)
          in if list_ex (\<lambda>w. w \<le> 0) weight \<or> N = 0 then Inl NonFinite
             else Inr (responsibility, log_likelihood, delta_length))"


section \<open>mixture\_ka: the maximization step and the E-M loop\<close>

text \<open>
  \<^verbatim>\<open>parent_responsibility * responsibility\<close>: the parent responsibilities are the
  scalar \<open>1\<close> by default (\<open>None\<close>) or a vector of length \<open>N\<close> that scales every row.
\<close>

definition scale_rows :: "vec option \<Rightarrow> mat \<Rightarrow> mat" where
  "scale_rows parent_responsibility responsibility =
     (case parent_responsibility of
        None \<Rightarrow> responsibility
      | Some p \<Rightarrow> map (\<lambda>row. vmul p row) responsibility)"

text \<open>\<^verbatim>\<open>np.sum(r * y.T, axis=1) / n\<close>: the weighted mean of the observations.\<close>

definition weighted_mean :: "vec list \<Rightarrow> vec \<Rightarrow> real \<Rightarrow> vec" where
  "weighted_mean y r n = map (\<lambda>a. (\<Sum>(ri, yi)\<leftarrow>zip r y. ri * yi ! a) / n) [0..<ncols y]"

text \<open>\<^verbatim>\<open>np.dot(r * offset.T, offset) / d\<close> with \<^verbatim>\<open>offset = y - mu\<close>.\<close>

definition weighted_cov :: "vec list \<Rightarrow> vec \<Rightarrow> vec \<Rightarrow> real \<Rightarrow> mat" where
  "weighted_cov y r mu d =
     map (\<lambda>row. map (\<lambda>s. s / d) row) (scatter (ncols y) r (map (\<lambda>yi. vsub yi mu) y))"

text \<open>The weights of the M-step: \<^verbatim>\<open>(effective_membership + 0.5)/(N + M/2.0)\<close>.\<close>

definition new_weights :: "nat \<Rightarrow> nat \<Rightarrow> mat \<Rightarrow> real list" where
  "new_weights N M responsibility =
     map (\<lambda>effective_membership. (effective_membership + 1 / 2) / (real N + real M / 2))
       (sum_axis1 responsibility)"

text \<open>
  \<^verbatim>\<open>mixture_ka._maximization\<close>. A weighted membership of \<open>0\<close> (the mean divides by it)
  or of \<open>1\<close> (the covariance divides by it minus one) leaves the real numbers.
\<close>

definition ka_maximization ::
  "vec list \<Rightarrow> vec list \<Rightarrow> mat list \<Rightarrow> real list \<Rightarrow> mat \<Rightarrow> vec option
   \<Rightarrow> error + (vec list \<times> mat list \<times> real list)" where
  "ka_maximization y mu cov weight responsibility parent_responsibility =
     (let M = length weight;
          N = length y;
          new_weight = new_weights N M responsibility;
          w_responsibility = scale_rows parent_responsibility responsibility;
          w_effective_membership = sum_axis1 w_responsibility;
          new_mu = map (\<lambda>m. weighted_mean y (w_responsibility ! m) (w_effective_membership ! m))
                     [0..<M];
          new_cov = map (\<lambda>m. weighted_cov y (w_responsibility ! m) (new_mu ! m)
                                (w_effective_membership ! m - 1)) [0..<M]
      in if list_ex (\<lambda>m. w_effective_membership ! m = 0 \<or> w_effective_membership ! m = 1) [0..<M]
         then Inl NonFinite
         else Inr (new_mu, new_cov, new_weight))"

record 'l meta =
  meta_warnflag :: bool
  meta_log_likelihood :: 'l

type_synonym ka_result = "vec list \<times> mat list \<times> real list \<times> mat \<times> real meta \<times> real"

text \<open>
  The \<^verbatim>\<open>while True\<close> loop of \<^verbatim>\<open>mixture_ka._expectation_maximization\<close>: an M-step,
  an E-step, the relative change of the log-likelihood (whose
  \<^verbatim>\<open>assert np.isfinite(relative_delta_ll)\<close> fails when the previous log-likelihood is
  zero), and the exit test. The iteration counter bounds the loop.
\<close>

function ka_em_loop ::
  "vec list \<Rightarrow> nat \<Rightarrow> vec option \<Rightarrow> real \<Rightarrow> nat
   \<Rightarrow> vec list \<Rightarrow> mat list \<Rightarrow> real list \<Rightarrow> mat \<Rightarrow> real \<Rightarrow> nat \<Rightarrow> error + ka_result" where
  "ka_em_loop y N_component_pars parent_responsibility threshold max_em_iterations
      mu cov weight responsibility prev_ll iterations =
     (case ka_maximization y mu cov weight responsibility parent_responsibility of
        Inl e \<Rightarrow> Inl e
      | Inr (mu', cov', weight') \<Rightarrow>
          (case ka_expectation y mu' cov' weight' N_component_pars of
             Inl e \<Rightarrow> Inl e
           | Inr (responsibility', ll, dl) \<Rightarrow>
               if prev_ll = 0 then Inl AssertionError
               else if \<bar>(ll - prev_ll) / prev_ll\<bar> \<le> threshold
                       \<or> iterations + 1 \<ge> max_em_iterations
               then Inr (mu', cov', weight', responsibility',
                         \<lparr>meta_warnflag = iterations + 1 \<ge> max_em_iterations, meta_log_likelihood = ll\<rparr>,
                         dl)
               else ka_em_loop y N_component_pars parent_responsibility threshold
                      max_em_iterations mu' cov' weight' responsibility' ll (iterations + 1)))"
  by pat_completeness auto
termination
  by (relation "measure (\<lambda>(y, N_cp, parent, threshold, max_em_iterations, mu, cov, weight,
                            responsibility, prev_ll, iterations). max_em_iterations - iterations)")
     auto

definition ka_expectation_maximization ::
  "vec list \<Rightarrow> vec list \<Rightarrow> mat list \<Rightarrow> real list \<Rightarrow> mat option \<Rightarrow> string \<Rightarrow> real \<Rightarrow> nat
   \<Rightarrow> vec option \<Rightarrow> error + ka_result" where
  "ka_expectation_maximization y mu cov weight responsibility covariance_type threshold
      max_em_iterations parent_responsibility =
     (case parameters_per_component (ncols y) covariance_type of
        Inl e \<Rightarrow> Inl e
      | Inr N_component_pars \<Rightarrow>
          (case ka_expectation y mu cov weight N_component_pars of
             Inl e \<Rightarrow> Inl e
           | Inr (init_responsibility, ll, dl) \<Rightarrow>
               ka_em_loop y N_component_pars parent_responsibility threshold max_em_iterations
                 mu cov weight
                 (case responsibility of None \<Rightarrow> init_responsibility | Some r \<Rightarrow> r)
                 ll 1))"

section \<open>mixture\_ka: the Kullback-Leibler distance and the three perturbations\<close>

text \<open>
  \<^verbatim>\<open>mixture_ka.kullback_leibler_for_multivariate_normals\<close>, as the code computes it:
  half the sum of \<^verbatim>\<open>np.trace(np.dot(Ca_inv, cov_b))\<close>,
  \<^verbatim>\<open>np.dot(offset.T, np.dot(Cb_inv, offset))\<close>, \<^verbatim>\<open>-k\<close> and
  \<^verbatim>\<open>np.log(np.linalg.det(cov_b)/np.linalg.det(cov_a))\<close>. The logarithm of a
  non-positive ratio leaves the real numbers.
\<close>

definition kullback_leibler_for_multivariate_normals ::
  "vec \<Rightarrow> mat \<Rightarrow> vec \<Rightarrow> mat \<Rightarrow> error + real" where
  "kullback_leibler_for_multivariate_normals mu_a cov_a mu_b cov_b =
     (case svd_inverse cov_a of
        Inl e \<Rightarrow> Inl e
      | Inr Ca_inv \<Rightarrow>
          (case svd_inverse cov_b of
             Inl e \<Rightarrow> Inl e
           | Inr Cb_inv \<Rightarrow>
               let k = length mu_a;
                   offset = vsub mu_b mu_a
               in if det cov_b / det cov_a \<le> 0 then Inl NonFinite
                  else Inr (1 / 2 * (trace (mat_mul Ca_inv cov_b)
                                     + vdot offset (mat_vec Cb_inv offset)
                                     - real k
                                     + ln (det cov_b / det cov_a)))))"

text \<open>
  The singular value decomposition is numpy's; \<^verbatim>\<open>split_component\<close> reads the first
  right singular vector \<^verbatim>\<open>V[0]\<close> (and, in \<^verbatim>\<open>mixture_search\<close>, the largest singular
  value \<^verbatim>\<open>S[0]\<close>) from it. It is a parameter \<open>svd\<close> of the model, returning
  \<open>(U, S, V)\<close>.
\<close>

type_synonym svd_fun = "mat \<Rightarrow> mat \<times> vec \<times> mat"


text \<open>\<^verbatim>\<open>np.diag(C)\<close>: the diagonal of a square matrix.\<close>

definition diagonal :: "mat \<Rightarrow> vec" where
  "diagonal C = map (\<lambda>i. C ! i ! i) [0..<length C]"

text \<open>
  \<^verbatim>\<open>child_mu = mu[index] + np.vstack([+V[0], -V[0]]) * np.diag(cov[index])**0.5\<close>; the
  square root of a negative diagonal entry is a \<open>nan\<close>, refused by
  \<^verbatim>\<open>assert np.all(np.isfinite(child_mu))\<close>.
\<close>

definition ka_child_mu :: "svd_fun \<Rightarrow> vec \<Rightarrow> mat \<Rightarrow> error + vec list" where
  "ka_child_mu svd mu_index cov_index =
     (case svd cov_index of
        (U, S, V) \<Rightarrow>
          let sd = map sqrt (diagonal cov_index)
          in if list_ex (\<lambda>c. c < 0) (diagonal cov_index) then Inl AssertionError
             else Inr [vadd mu_index (vmul (V ! 0) sd),
                       vadd mu_index (vmul (map uminus (V ! 0)) sd)])"

text \<open>
  The seed of the children's responsibilities in \<^verbatim>\<open>mixture_ka.split_component\<close>:
  the two rows \<^verbatim>\<open>np.sum(np.abs(y - child_mu[k]), axis=1)\<close>, each column divided by its
  sum. An observation at distance zero of both children gives \<open>0/0\<close>.
\<close>

definition abs_distance :: "vec \<Rightarrow> vec \<Rightarrow> real" where
  "abs_distance yi m = (\<Sum>d\<leftarrow>vsub yi m. \<bar>d\<bar>)"

definition ka_child_responsibility :: "vec list \<Rightarrow> vec list \<Rightarrow> error + mat" where
  "ka_child_responsibility y child_mu =
     (let d0 = map (\<lambda>yi. abs_distance yi (child_mu ! 0)) y;
          d1 = map (\<lambda>yi. abs_distance yi (child_mu ! 1)) y
      in if list_ex (\<lambda>(a, b). a + b = 0) (zip d0 d1) then Inl NonFinite
         else Inr [map (\<lambda>(a, b). a / (a + b)) (zip d0 d1),
                   map (\<lambda>(a, b). b / (a + b)) (zip d0 d1)])"

text \<open>\<^verbatim>\<open>mixture_ka.split_component\<close>.\<close>

definition ka_split_component ::
  "svd_fun \<Rightarrow> vec list \<Rightarrow> vec list \<Rightarrow> mat list \<Rightarrow> real list \<Rightarrow> mat \<Rightarrow> nat \<Rightarrow> string
   \<Rightarrow> real \<Rightarrow> nat \<Rightarrow> error + ka_result" where
  "ka_split_component svd y mu cov weight responsibility index covariance_type threshold
      max_em_iterations =
     (let M = length weight
      in if index \<ge> length cov \<or> index \<ge> length mu \<or> index \<ge> M
            \<or> index \<ge> length responsibility then Inl IndexError
      else
      case ka_child_mu svd (mu ! index) (cov ! index) of
        Inl e \<Rightarrow> Inl e
      | Inr child_mu \<Rightarrow>
      (case ka_child_responsibility y child_mu of
        Inl e \<Rightarrow> Inl e
      | Inr child_responsibility \<Rightarrow>
          let child_effective_membership = sum_axis1 child_responsibility;
              child_cov = map (\<lambda>k. weighted_cov y (child_responsibility ! k) (child_mu ! k)
                                      (child_effective_membership ! k - 1)) [0, 1];
              child_weight = map (\<lambda>e. e / sum_list child_effective_membership)
                               child_effective_membership;
              parent_weight = weight ! index;
              parent_responsibility = map (clip eps 1) (responsibility ! index)
          in if list_ex (\<lambda>e. e = 1) child_effective_membership
                \<or> sum_list child_effective_membership = 0 then Inl NonFinite
             else
             case ka_expectation_maximization y child_mu child_cov child_weight
                    (Some child_responsibility) covariance_type threshold max_em_iterations
                    (Some parent_responsibility) of
               Inl e \<Rightarrow> Inl e
             | Inr (child_mu', child_cov', child_weight', child_responsibility', meta, dl) \<Rightarrow>
                 if M > 1 then
                   ka_expectation_maximization y
                     ((mu @ [child_mu' ! 1])[index := child_mu' ! 0])
                     ((cov @ [child_cov' ! 1])[index := child_cov' ! 0])
                     ((weight @ [parent_weight * child_weight' ! 1])
                        [index := parent_weight * child_weight' ! 0])
                     (Some ((responsibility
                             @ [vmul parent_responsibility (child_responsibility' ! 1)])
                        [index := vmul parent_responsibility (child_responsibility' ! 0)]))
                     covariance_type threshold max_em_iterations None
                 else Inr (child_mu', child_cov', child_weight', child_responsibility', meta, dl)))"

text \<open>
  \<^verbatim>\<open>mixture_ka.delete_component\<close>. The remaining weights are divided by one minus the
  removed weight and the remaining responsibilities by one minus the removed row, then
  clipped to \<open>[0, 1]\<close>. Where the removed entry is one, the quotient is \<open>+inf\<close> (clipped
  to one), \<open>-inf\<close> (clipped to zero) or \<open>0/0\<close>.
\<close>

definition ka_delete_weight :: "real list \<Rightarrow> nat \<Rightarrow> real list" where
  "ka_delete_weight weight index =
     map (\<lambda>w. w / (1 - weight ! index)) (np_delete weight index)"

definition delete_entry :: "real \<Rightarrow> real \<Rightarrow> real option" where
  "delete_entry p r =
     (if p = 1 then (if r > 0 then Some 1 else if r < 0 then Some 0 else None)
      else Some (clip 0 1 (r / (1 - p))))"

definition ka_delete_component ::
  "vec list \<Rightarrow> vec list \<Rightarrow> mat list \<Rightarrow> real list \<Rightarrow> mat \<Rightarrow> nat \<Rightarrow> string
   \<Rightarrow> real \<Rightarrow> nat \<Rightarrow> error + ka_result" where
  "ka_delete_component y mu cov weight responsibility index covariance_type threshold
      max_em_iterations =
     (if index \<ge> length weight \<or> index \<ge> length responsibility
         \<or> index \<ge> length mu \<or> index \<ge> length cov then Inl IndexError
      else
        let parent_weight = weight ! index;
            parent_responsibility = responsibility ! index;
            new_weight = ka_delete_weight weight index;
            new_responsibility =
              map (\<lambda>row. map (\<lambda>(r, p). delete_entry p r) (zip row parent_responsibility))
                (np_delete responsibility index);
            new_mu = np_delete mu index;
            new_cov = np_delete cov index
        in if parent_weight = 1 then Inl NonFinite
           else case those (map those new_responsibility) of
                  None \<Rightarrow> Inl NonFinite
                | Some new_responsibility' \<Rightarrow>
                    ka_expectation_maximization y new_mu new_cov new_weight
                      (Some new_responsibility') covariance_type threshold max_em_iterations None)"

text \<open>
  \<^verbatim>\<open>D_kl = np.inf * np.ones(weight.size)\<close>: a distance is a real number or, for the
  entry of the component itself, \<open>inf\<close> (\<open>None\<close>). \<^verbatim>\<open>np.nanargmin\<close> returns the
  first index of the least entry.
\<close>

fun less_inf :: "real option \<Rightarrow> real option \<Rightarrow> bool" where
  "less_inf (Some a) (Some b) = (a < b)"
| "less_inf (Some a) None = True"
| "less_inf None _ = False"

fun argmin_from :: "nat \<Rightarrow> real option \<Rightarrow> nat \<Rightarrow> real option list \<Rightarrow> nat" where
  "argmin_from best_i best_v i [] = best_i"
| "argmin_from best_i best_v i (v # vs) =
     (if less_inf v best_v then argmin_from i v (Suc i) vs
      else argmin_from best_i best_v (Suc i) vs)"

definition nanargmin :: "real option list \<Rightarrow> nat" where
  "nanargmin D_kl = (case D_kl of [] \<Rightarrow> 0 | v # vs \<Rightarrow> argmin_from 0 v 1 vs)"

text \<open>
  The loop of \<^verbatim>\<open>merge_component\<close> that fills \<^verbatim>\<open>D_kl\<close>: the distance from the
  component \<open>index\<close> to every other component \<open>m\<close>, in order.
\<close>

fun ka_D_kl :: "vec list \<Rightarrow> mat list \<Rightarrow> nat \<Rightarrow> nat list \<Rightarrow> error + real option list" where
  "ka_D_kl mu cov index [] = Inr []"
| "ka_D_kl mu cov index (m # ms) =
     (if m = index then
        (case ka_D_kl mu cov index ms of Inl e \<Rightarrow> Inl e | Inr ds \<Rightarrow> Inr (None # ds))
      else
        (case kullback_leibler_for_multivariate_normals
                (mu ! index) (cov ! index) (mu ! m) (cov ! m) of
           Inl e \<Rightarrow> Inl e
         | Inr d \<Rightarrow>
             (case ka_D_kl mu cov index ms of Inl e \<Rightarrow> Inl e | Inr ds \<Rightarrow> Inr (Some d # ds))))"

text \<open>
  What \<^verbatim>\<open>mixture_ka.merge_component\<close> hands to the E-M: the partner \<open>b_index\<close>, the
  summed weight and responsibility row, the mean and covariance recomputed from that row,
  and the four arrays with the row \<open>max a b\<close> deleted and the row \<open>min a b\<close> overwritten.
\<close>

record merged =
  partner :: nat
  merged_mu :: "vec list"
  merged_cov :: "mat list"
  merged_weight :: "real list"
  merged_responsibility :: mat

definition ka_merge_arrays ::
  "vec list \<Rightarrow> vec list \<Rightarrow> mat list \<Rightarrow> real list \<Rightarrow> mat \<Rightarrow> nat \<Rightarrow> error + merged" where
  "ka_merge_arrays y mu cov weight responsibility index =
     (if index \<ge> length weight \<or> index \<ge> length responsibility
         \<or> index \<ge> length mu \<or> index \<ge> length cov then Inl IndexError
      else
      case ka_D_kl mu cov index [0..<length weight] of
        Inl e \<Rightarrow> Inl e
      | Inr D_kl \<Rightarrow>
          let a_index = index;
              b_index = nanargmin D_kl;
              weight_k = weight ! a_index + weight ! b_index;
              responsibility_k = vadd (responsibility ! a_index) (responsibility ! b_index);
              effective_membership_k = sum_list responsibility_k;
              mu_k = weighted_mean y responsibility_k effective_membership_k;
              cov_k = weighted_cov y responsibility_k mu_k (effective_membership_k - 1);
              del_index = max a_index b_index;
              keep_index = min a_index b_index
          in if keep_index \<ge> length (np_delete mu del_index) then Inl IndexError
             else if effective_membership_k = 0 \<or> effective_membership_k = 1
             then Inl NonFinite
             else Inr \<lparr>partner = b_index,
                       merged_mu = (np_delete mu del_index)[keep_index := mu_k],
                       merged_cov = (np_delete cov del_index)[keep_index := cov_k],
                       merged_weight = (np_delete weight del_index)[keep_index := weight_k],
                       merged_responsibility =
                         (np_delete responsibility del_index)[keep_index := responsibility_k]\<rparr>)"

definition ka_merge_component ::
  "vec list \<Rightarrow> vec list \<Rightarrow> mat list \<Rightarrow> real list \<Rightarrow> mat \<Rightarrow> nat \<Rightarrow> string
   \<Rightarrow> real \<Rightarrow> nat \<Rightarrow> error + ka_result" where
  "ka_merge_component y mu cov weight responsibility index covariance_type threshold
      max_em_iterations =
     (case ka_merge_arrays y mu cov weight responsibility index of
        Inl e \<Rightarrow> Inl e
      | Inr g \<Rightarrow>
          ka_expectation_maximization y (merged_mu g) (merged_cov g) (merged_weight g)
            (Some (merged_responsibility g)) covariance_type threshold max_em_iterations None)"

section \<open>mixture\_ka: the search loop\<close>

text \<open>
  \<^verbatim>\<open>best_perturbations = defaultdict(lambda: [np.inf])\<close>: the entry of an operation is
  the default \<^verbatim>\<open>[np.inf]\<close> (\<open>None\<close>) or the index of a component followed by what the
  perturbation returned; its key in every comparison is its last element, the message
  length.
\<close>

datatype operation = Split | Delete | Merge

type_synonym best = "(nat \<times> ka_result) option"

definition p_dl :: "ka_result \<Rightarrow> real" where
  "p_dl r = (case r of (mu, cov, weight, responsibility, meta, dl) \<Rightarrow> dl)"

definition last_of :: "best \<Rightarrow> real option" where
  "last_of b = (case b of None \<Rightarrow> None | Some (m, r) \<Rightarrow> Some (p_dl r))"

text \<open>
  One \<^verbatim>\<open>for m in range(M)\<close> loop: the perturbation of every component, in order, and
  \<^verbatim>\<open>if p_dl < best_perturbations[op][-1]: best_perturbations[op] = [m] + list(r)\<close>.
  An exception of a perturbation ends the search. The second component of the result
  lists the indices the perturbation was called with.
\<close>

fun exhaust ::
  "(nat \<Rightarrow> error + ka_result) \<Rightarrow> nat list \<Rightarrow> best \<Rightarrow> error + (best \<times> nat list)" where
  "exhaust perturb [] b = Inr (b, [])"
| "exhaust perturb (m # ms) b =
     (case perturb m of
        Inl e \<Rightarrow> Inl e
      | Inr r \<Rightarrow>
          (case exhaust perturb ms (if less_inf (Some (p_dl r)) (last_of b) then Some (m, r) else b) of
             Inl e \<Rightarrow> Inl e
           | Inr (b', called) \<Rightarrow> Inr (b', m # called)))"

text \<open>
  \<^verbatim>\<open>min(best_perturbations.items(), key=lambda x: x[1][-1])\<close>: the first item, in
  the order the keys were inserted, whose last element is least.
\<close>

fun min_item :: "(operation \<times> best) \<Rightarrow> (operation \<times> best) list \<Rightarrow> operation \<times> best" where
  "min_item x [] = x"
| "min_item x (z # zs) =
     (if less_inf (last_of (snd z)) (last_of (snd x)) then min_item z zs else min_item x zs)"

text \<open>
  The three perturbations, as functions of the component, and the state of the search:
  the mixture, its responsibility matrix and its message length \<^verbatim>\<open>mindl\<close>.
\<close>

record perturbations =
  split_component :: "nat \<Rightarrow> error + ka_result"
  delete_component :: "nat \<Rightarrow> error + ka_result"
  merge_component :: "nat \<Rightarrow> error + ka_result"

type_synonym search_state = "vec list \<times> mat list \<times> real list \<times> mat \<times> real"

definition ka_perturbations ::
  "svd_fun \<Rightarrow> vec list \<Rightarrow> string \<Rightarrow> real \<Rightarrow> nat \<Rightarrow> search_state \<Rightarrow> perturbations" where
  "ka_perturbations svd y covariance_type threshold max_em_iterations st =
     (case st of (mu, cov, weight, R, mindl) \<Rightarrow>
        \<lparr>split_component = (\<lambda>m. ka_split_component svd y mu cov weight R m covariance_type threshold
                         max_em_iterations),
         delete_component = (\<lambda>m. ka_delete_component y mu cov weight R m covariance_type threshold
                          max_em_iterations),
         merge_component = (\<lambda>m. ka_merge_component y mu cov weight R m covariance_type threshold
                         max_em_iterations)\<rparr>)"

text \<open>
  One pass of the \<^verbatim>\<open>while True\<close> loop of \<^verbatim>\<open>_fit_kasarapu_allison\<close>. It ends in the
  new state of the search (\<open>Accepted\<close>) or with the \<^verbatim>\<open>break\<close> (\<open>Stopped\<close>), and lists
  the calls it made. Unpacking the default entry \<^verbatim>\<open>[np.inf]\<close> into seven names raises
  \<^verbatim>\<open>ValueError\<close>.
\<close>

datatype outcome = Accepted operation nat search_state | Stopped

record round_result =
  outcome_of :: outcome
  calls :: "(operation \<times> nat) list"

definition search_round :: "perturbations \<Rightarrow> search_state \<Rightarrow> error + round_result" where
  "search_round ops st =
     (case st of (mu, cov, weight, R, mindl) \<Rightarrow>
      let M = length weight
      in case exhaust (split_component ops) [0..<M] None of
           Inl e \<Rightarrow> Inl e
         | Inr (best_split, split_calls) \<Rightarrow>
             (case (if M > 1 then
                      (case exhaust (delete_component ops) [0..<M] None of
                         Inl e \<Rightarrow> Inl e
                       | Inr (best_delete, delete_calls) \<Rightarrow>
                           (case exhaust (merge_component ops) [0..<M] None of
                              Inl e \<Rightarrow> Inl e
                            | Inr (best_merge, merge_calls) \<Rightarrow>
                                Inr ([(Delete, best_delete), (Merge, best_merge)],
                                     map (Pair Delete) delete_calls
                                     @ map (Pair Merge) merge_calls)))
                    else Inr ([], [])) of
                Inl e \<Rightarrow> Inl e
              | Inr (others, other_calls) \<Rightarrow>
                  (case min_item (Split, best_split) others of
                     (operation, None) \<Rightarrow> Inl ValueError
                   | (operation, Some (b_m, b_mu, b_cov, b_weight, b_R, b_meta, b_dl)) \<Rightarrow>
                       Inr \<lparr>outcome_of = (if mindl > b_dl
                                       then Accepted operation b_m (b_mu, b_cov, b_weight, b_R, b_dl)
                                       else Stopped),
                            calls = map (Pair Split) split_calls @ other_calls\<rparr>)))"

text \<open>
  \<^verbatim>\<open>mixture_ka._initialize\<close>: one component, the mean of the data, its sample
  covariance \<^verbatim>\<open>np.cov(y.T)\<close> (divisor \<open>N - 1\<close>) and the weight one.
\<close>

definition ka_initialize :: "vec list \<Rightarrow> error + (vec list \<times> mat list \<times> real list)" where
  "ka_initialize y =
     (let N = length y;
          means = weighted_mean y (replicate N 1) (real N)
      in if N = 0 \<or> N = 1 then Inl NonFinite
         else Inr ([means], [weighted_cov y (replicate N 1) means (real N - 1)], [1]))"

text \<open>
  The search loop of \<^verbatim>\<open>_fit_kasarapu_allison\<close>. Nothing bounds the number of its
  rounds, so the loop is a partial function: \<open>None\<close> is the run that never ends.
\<close>

partial_function (option) search_loop ::
  "(search_state \<Rightarrow> perturbations) \<Rightarrow> search_state
   \<Rightarrow> (error + (vec list \<times> mat list \<times> real list)) option" where
  "search_loop ops st =
     (case search_round (ops st) st of
        Inl e \<Rightarrow> Some (Inl e)
      | Inr r \<Rightarrow>
          (case outcome_of r of
             Accepted operation m st' \<Rightarrow> search_loop ops st'
           | Stopped \<Rightarrow> (case st of (mu, cov, weight, R, mindl) \<Rightarrow> Some (Inr (mu, cov, weight)))))"

section \<open>The constructors\<close>

text \<open>\<^verbatim>\<open>str.strip()\<close> and \<^verbatim>\<open>str.lower()\<close> on ASCII strings.\<close>

definition is_space :: "char \<Rightarrow> bool" where
  "is_space c = (c \<in> set [CHR 0x09, CHR 0x0A, CHR 0x0B, CHR 0x0C, CHR 0x0D,
                          CHR 0x1C, CHR 0x1D, CHR 0x1E, CHR 0x1F, CHR 0x20])"

definition strip :: "string \<Rightarrow> string" where
  "strip s = rev (dropWhile is_space (rev (dropWhile is_space s)))"

definition lower_char :: "char \<Rightarrow> char" where
  "lower_char c =
     (case map_of (zip ''ABCDEFGHIJKLMNOPQRSTUVWXYZ'' ''abcdefghijklmnopqrstuvwxyz'') c of
        None \<Rightarrow> c | Some d \<Rightarrow> d)"

definition lower :: "string \<Rightarrow> string" where
  "lower s = map lower_char s"

text \<open>
  The attributes of a \<^verbatim>\<open>mixture_ka.GaussianMixture\<close>; an attribute that has not been
  assigned is \<open>None\<close>. \<^verbatim>\<open>__init__\<close> takes the object and returns it with the
  exception raised, if any.
\<close>

record ka_GaussianMixture =
  ka_y :: "vec list option"
  ka_covariance_type :: "string option"

definition ka_init ::
  "ka_GaussianMixture \<Rightarrow> vec list \<Rightarrow> string \<Rightarrow> error option \<times> ka_GaussianMixture" where
  "ka_init self y covariance_type =
     (let available = [''free'', ''diag'', ''tied'', ''tied_diag''];
          covariance_type = lower (strip covariance_type)
      in if covariance_type \<notin> set available then (Some ValueError, self)
         else if covariance_type \<notin> set [''free'', ''tied''] then (Some NotImplementedError, self)
         else (None, self\<lparr>ka_y := Some y, ka_covariance_type := Some covariance_type\<rparr>))"

text \<open>\<^verbatim>\<open>mixture_search.GaussianMixture.__init__\<close>.\<close>

record search_GaussianMixture =
  s_threshold :: "real option"
  s_max_em_iterations :: "int option"
  s_covariance_type :: "string option"
  s_covariance_regularization :: "real option"

definition search_init ::
  "search_GaussianMixture \<Rightarrow> string \<Rightarrow> real \<Rightarrow> real \<Rightarrow> int
   \<Rightarrow> error option \<times> search_GaussianMixture" where
  "search_init self covariance_type covariance_regularization threshold max_em_iterations =
     (let available = [''full'', ''diag''];
          covariance_type = lower (strip covariance_type)
      in if covariance_type \<notin> set available then (Some ValueError, self)
         else if 0 > covariance_regularization then (Some ValueError, self)
         else if 0 \<ge> threshold then (Some ValueError, self)
         else if 1 > max_em_iterations then (Some ValueError, self)
         else (None, self\<lparr>s_threshold := Some threshold,
                             s_max_em_iterations := Some max_em_iterations,
                             s_covariance_type := Some covariance_type,
                             s_covariance_regularization := Some covariance_regularization\<rparr>))"

text \<open>
  \<^verbatim>\<open>_fit_kasarapu_allison\<close>: the checks of its arguments, the one-component mixture,
  its first expectation step, and the search loop.
\<close>

definition ka_fit ::
  "svd_fun \<Rightarrow> ka_GaussianMixture \<Rightarrow> real \<Rightarrow> int
   \<Rightarrow> (error + (vec list \<times> mat list \<times> real list)) option" where
  "ka_fit svd self threshold max_em_iterations =
     (if 0 \<ge> threshold then Some (Inl ValueError)
      else if 1 > max_em_iterations then Some (Inl ValueError)
      else case (ka_y self, ka_covariance_type self) of
        (Some y, Some covariance_type) \<Rightarrow>
          (case ka_initialize y of
             Inl e \<Rightarrow> Some (Inl e)
           | Inr (mu, cov, weight) \<Rightarrow>
               (case parameters_per_component (ncols y) covariance_type of
                  Inl e \<Rightarrow> Some (Inl e)
                | Inr N_cp \<Rightarrow>
                    (case ka_expectation y mu cov weight N_cp of
                       Inl e \<Rightarrow> Some (Inl e)
                     | Inr (R, ll, mindl) \<Rightarrow>
                         search_loop
                           (ka_perturbations svd y covariance_type threshold
                              (nat max_em_iterations))
                           (mu, cov, weight, R, mindl))))
      | _ \<Rightarrow> Some (Inl AttributeError))"

section \<open>mixture\_search: responsibilities\<close>

text \<open>\<^verbatim>\<open>a in b\<close> for strings: \<open>a\<close> occurs in \<open>b\<close>.\<close>

definition is_in :: "string \<Rightarrow> string \<Rightarrow> bool" where
  "is_in a b = list_ex (\<lambda>i. take (length a) (drop i b) = a) [0..<Suc (length b - length a)]"

text \<open>
  \<^verbatim>\<open>scipy.linalg.cholesky(covariance, lower=True)\<close>, row by row: the lower factor
  \<open>L\<close> with \<open>L L\<^sup>T = C\<close>, or \<open>None\<close> where scipy raises \<^verbatim>\<open>LinAlgError\<close> because a
  pivot is not positive.
\<close>

fun cholesky_row :: "vec \<Rightarrow> mat \<Rightarrow> vec \<Rightarrow> vec" where
  "cholesky_row a [] acc = acc"
| "cholesky_row a (Lj # Ls) acc =
     (let j = length acc
      in cholesky_row a Ls (acc @ [(a ! j - vdot acc (take j Lj)) / Lj ! j]))"

fun cholesky_rows :: "mat \<Rightarrow> mat \<Rightarrow> mat option" where
  "cholesky_rows [] L = Some L"
| "cholesky_rows (a # as) L =
     (let i = length L;
          off = cholesky_row a L [];
          d = a ! i - vdot off off
      in if d \<le> 0 then None else cholesky_rows as (L @ [off @ [sqrt d]]))"

definition cholesky :: "mat \<Rightarrow> mat option" where
  "cholesky C =
     map_option (map (\<lambda>row. row @ replicate (length C - length row) 0)) (cholesky_rows C [])"

text \<open>
  \<^verbatim>\<open>scipy.linalg.solve_triangular(cholesky_cov, np.eye(D), lower=True)\<close> is the inverse
  of the factor, whose diagonal is positive.
\<close>

definition solve_triangular_eye :: "mat \<Rightarrow> mat" where
  "solve_triangular_eye L =
     map (\<lambda>i. map (\<lambda>j. (- 1) ^ (i + j) * det (minor L j i) / det L) [0..<length L])
       [0..<length L]"

definition fulls :: "covariance list \<Rightarrow> mat list option" where
  "fulls cov = those (map (\<lambda>c. case c of Full m \<Rightarrow> Some m | Diag v \<Rightarrow> None) cov)"

definition diags :: "covariance list \<Rightarrow> vec list option" where
  "diags cov = those (map (\<lambda>c. case c of Diag v \<Rightarrow> Some v | Full m \<Rightarrow> None) cov)"

text \<open>
  \<^verbatim>\<open>_compute_precision_cholesky\<close>. Its tests are \<^verbatim>\<open>covariance_type in "full"\<close> and
  \<^verbatim>\<open>covariance_type in "diag"\<close>; any other string raises
  \<^verbatim>\<open>NotImplementedError("nope")\<close>. A covariance that has no Cholesky factor, or a
  non-positive variance, raises \<^verbatim>\<open>ValueError\<close>.
\<close>

fun precision_full :: "mat list \<Rightarrow> error + covariance list" where
  "precision_full [] = Inr []"
| "precision_full (c # cs) =
     (case cholesky c of
        None \<Rightarrow> Inl ValueError
      | Some cholesky_cov \<Rightarrow>
          (case precision_full cs of
             Inl e \<Rightarrow> Inl e
           | Inr ps \<Rightarrow> Inr (Full (mat_T (solve_triangular_eye cholesky_cov)) # ps)))"

definition compute_precision_cholesky :: "covariance list \<Rightarrow> string \<Rightarrow> error + covariance list" where
  "compute_precision_cholesky covariances covariance_type =
     (if covariance_type = ''full'' then
        (case fulls covariances of None \<Rightarrow> Inl Unmodelled | Some cs \<Rightarrow> precision_full cs)
      else if covariance_type = ''diag'' then
        (case diags covariances of
           None \<Rightarrow> Inl Unmodelled
         | Some vs \<Rightarrow>
             if list_ex (list_ex (\<lambda>c. c \<le> 0)) vs then Inl ValueError
             else Inr (map (\<lambda>v. Diag (map (\<lambda>c. c powr (- 1 / 2)) v)) vs))
      else if is_in covariance_type ''full'' \<or> is_in covariance_type ''diag'' then Inl Unmodelled
      else Inl NotImplementedError)"

text \<open>
  \<^verbatim>\<open>_estimate_log_gaussian_prob\<close> with \<^verbatim>\<open>_compute_log_det_cholesky\<close>, for one
  observation \<open>x\<close> and one component (mean \<open>mu\<close>, precision factor \<open>p\<close>).
\<close>

definition vec_mat :: "vec \<Rightarrow> mat \<Rightarrow> vec" where
  "vec_mat x P = map (\<lambda>j. vdot x (column P j)) [0..<ncols P]"

definition log_gaussian_prob :: "nat \<Rightarrow> vec \<Rightarrow> vec \<Rightarrow> covariance \<Rightarrow> real" where
  "log_gaussian_prob n_features x mu p =
     (case p of
        Full prec_chol \<Rightarrow>
          (let log_det = (\<Sum>d\<leftarrow>diagonal prec_chol. ln d);
               yk = vsub (vec_mat x prec_chol) (vec_mat mu prec_chol);
               log_prob = (\<Sum>v\<leftarrow>yk. v\<^sup>2)
           in - 1 / 2 * (real n_features * ln (2 * pi) + log_prob) + log_det)
      | Diag prec_chol \<Rightarrow>
          (let log_det = (\<Sum>d\<leftarrow>prec_chol. ln d);
               precisions = map (\<lambda>d. d\<^sup>2) prec_chol;
               log_prob = vdot (map (\<lambda>m. m\<^sup>2) mu) precisions
                          - 2 * vdot x (vmul mu precisions)
                          + vdot (map (\<lambda>v. v\<^sup>2) x) precisions
           in - 1 / 2 * (real n_features * ln (2 * pi) + log_prob) + log_det))"

text \<open>\<^verbatim>\<open>scipy.misc.logsumexp\<close> of one row.\<close>

definition logsumexp :: "vec \<Rightarrow> real" where
  "logsumexp a = ln (\<Sum>v\<leftarrow>a. exp v)"

text \<open>
  \<^verbatim>\<open>mixture_search.responsibility_matrix\<close> with \<^verbatim>\<open>full_output=True\<close>: the
  responsibility matrix and the log-likelihood of every observation. The logarithm of a
  non-positive weight leaves the real numbers; \<^verbatim>\<open>dofail\<close> raises the undefined name
  \<^verbatim>\<open>a\<close>.
\<close>

definition weighted_log_prob :: "nat \<Rightarrow> vec list \<Rightarrow> covariance list \<Rightarrow> real list \<Rightarrow> vec \<Rightarrow> vec" where
  "weighted_log_prob n_features mu precision_cholesky weight x =
     map (\<lambda>(w, m, p). ln w + log_gaussian_prob n_features x m p)
       (zip weight (zip mu precision_cholesky))"

definition search_responsibility_matrix ::
  "vec list \<Rightarrow> vec list \<Rightarrow> covariance list \<Rightarrow> real list \<Rightarrow> string \<Rightarrow> bool
   \<Rightarrow> error + (mat \<times> vec)" where
  "search_responsibility_matrix y mu cov weight covariance_type dofail =
     (case compute_precision_cholesky cov covariance_type of
        Inl e \<Rightarrow> Inl e
      | Inr precision_cholesky \<Rightarrow>
          let wlp = map (weighted_log_prob (ncols y) mu precision_cholesky weight) y;
              log_likelihood = map logsumexp wlp;
              responsibility =
                map (\<lambda>k. map (\<lambda>(row, ll). exp (row ! k - ll)) (zip wlp log_likelihood))
                  [0..<length mu]
          in if mu = [] \<or> list_ex (\<lambda>w. w \<le> 0) weight then Inl NonFinite
             else if dofail then Inl NameError
             else Inr (responsibility, log_likelihood))"

section \<open>mixture\_search: the message length and the E-M loop\<close>

text \<open>\<^verbatim>\<open>_parameters_per_mixture\<close>.\<close>

definition parameters_per_mixture :: "nat \<Rightarrow> string \<Rightarrow> error + nat" where
  "parameters_per_mixture D covariance_type =
     (if covariance_type = ''full'' then Inr (D + D * (D + 1) div 2)
      else if covariance_type = ''diag'' then Inr (2 * D)
      else Inl ValueError)"

text \<open>
  The numbers of \<^verbatim>\<open>_message_length\<close>. Its inputs are finite, but \<^verbatim>\<open>np.log\<close> of zero
  is \<open>-inf\<close> and of a negative number \<open>nan\<close>, neither of which raises, and
  \<^verbatim>\<open>scipy.special.gammaln(0)\<close> is \<open>inf\<close>; the sums and products that follow carry
  these values as floating-point arithmetic does: \<open>inf - inf\<close> and \<open>0 * inf\<close> are
  \<open>nan\<close>, a \<open>nan\<close> stays one, and every comparison with a \<open>nan\<close> is false.
\<close>

datatype ext = Fin real | PInf | MInf | NaN

fun ext_add :: "ext \<Rightarrow> ext \<Rightarrow> ext" where
  "ext_add (Fin a) (Fin b) = Fin (a + b)"
| "ext_add NaN x = NaN"
| "ext_add x NaN = NaN"
| "ext_add PInf MInf = NaN"
| "ext_add MInf PInf = NaN"
| "ext_add PInf x = PInf"
| "ext_add x PInf = PInf"
| "ext_add MInf x = MInf"
| "ext_add x MInf = MInf"

text \<open>The product \<open>c * x\<close> and the quotient \<open>x / d\<close> with a finite \<open>c\<close> or \<open>d\<close>.\<close>

fun ext_times :: "real \<Rightarrow> ext \<Rightarrow> ext" where
  "ext_times c (Fin a) = Fin (c * a)"
| "ext_times c PInf = (if 0 < c then PInf else if c < 0 then MInf else NaN)"
| "ext_times c MInf = (if 0 < c then MInf else if c < 0 then PInf else NaN)"
| "ext_times c NaN = NaN"

fun ext_div :: "ext \<Rightarrow> real \<Rightarrow> ext" where
  "ext_div (Fin a) d =
     (if d \<noteq> 0 then Fin (a / d) else if 0 < a then PInf else if a < 0 then MInf else NaN)"
| "ext_div PInf d = (if 0 \<le> d then PInf else MInf)"
| "ext_div MInf d = (if 0 \<le> d then MInf else PInf)"
| "ext_div NaN d = NaN"

definition ext_sum :: "ext list \<Rightarrow> ext" where
  "ext_sum xs = foldr ext_add xs (Fin 0)"

definition ext_log :: "real \<Rightarrow> ext" where
  "ext_log x = (if 0 < x then Fin (ln x) else if x = 0 then MInf else NaN)"

text \<open>The comparisons \<open>x > c\<close> and \<open>x >= c\<close> with a finite \<open>c\<close>.\<close>

fun ext_gt :: "ext \<Rightarrow> real \<Rightarrow> bool" where
  "ext_gt (Fin a) c = (c < a)"
| "ext_gt PInf c = True"
| "ext_gt MInf c = False"
| "ext_gt NaN c = False"

fun ext_ge :: "ext \<Rightarrow> real \<Rightarrow> bool" where
  "ext_ge (Fin a) c = (c \<le> a)"
| "ext_ge PInf c = True"
| "ext_ge MInf c = False"
| "ext_ge NaN c = False"

text \<open>\<^verbatim>\<open>scipy.special.gammaln(M)\<close>: the logarithm of \<open>(M - 1)!\<close>, and \<open>inf\<close> at zero.\<close>

definition gammaln :: "nat \<Rightarrow> ext" where
  "gammaln M = (if M = 0 then PInf else Fin (ln (fact (M - 1))))"

text \<open>\<^verbatim>\<open>log_kappa\<close>.\<close>

definition log_kappa :: "real \<Rightarrow> ext" where
  "log_kappa D =
     (let cd = ext_add (Fin (- 1 / 2 * D * ln (2 * pi))) (ext_times (1 / 2) (ext_log (D * pi)))
      in ext_add (Fin (- 1)) (ext_div (ext_times 2 cd) D))"

text \<open>
  \<^verbatim>\<open>cov_\<close> of \<^verbatim>\<open>_message_length\<close>: under \<^verbatim>\<open>"diag"\<close> every covariance is multiplied
  entry by entry with \<^verbatim>\<open>np.eye(D)\<close>; under any other type the array is taken as it is,
  and must hold matrices.
\<close>

definition times_eye :: "nat \<Rightarrow> covariance \<Rightarrow> mat" where
  "times_eye D c =
     (case c of
        Diag v \<Rightarrow> map (\<lambda>irow. vmul v irow) (eye D)
      | Full m \<Rightarrow> map (\<lambda>(mrow, irow). vmul mrow irow) (zip m (eye D)))"

definition cov_matrices :: "nat \<Rightarrow> covariance list \<Rightarrow> string \<Rightarrow> mat list option" where
  "cov_matrices D cov covariance_type =
     (if covariance_type = ''diag'' then Some (map (times_eye D) cov) else fulls cov)"

text \<open>\<^verbatim>\<open>cov.flatten()\<close>.\<close>

definition cov_flatten :: "covariance list \<Rightarrow> real list" where
  "cov_flatten cov = concat (map (\<lambda>c. case c of Full m \<Rightarrow> concat m | Diag v \<Rightarrow> v) cov)"

text \<open>
  The total of \<^verbatim>\<open>_message_length\<close>, \<^verbatim>\<open>I = part1 + part2\<close>, and its weight term
  \<^verbatim>\<open>I_w\<close>, both in bits, from the determinants \<^verbatim>\<open>np.linalg.det(cov_)\<close>.
\<close>

definition I_w :: "nat \<Rightarrow> real list \<Rightarrow> ext" where
  "I_w N weight =
     (let M = length weight
      in ext_div
           (ext_add
              (ext_add (ext_times ((real M - 1) / 2) (ext_log (real N)))
                 (ext_times (- (1 / 2)) (ext_sum (map ext_log weight))))
              (ext_times (- 1) (gammaln M)))
           (ln 2))"

definition total_length :: "nat \<Rightarrow> nat \<Rightarrow> real list \<Rightarrow> real list \<Rightarrow> mat \<Rightarrow> real \<Rightarrow> ext" where
  "total_length N D dets weight responsibility nll =
     (let M = length weight;
          I_m = real M;
          log_det_cov = map ext_log dets;
          log_F_m = map (\<lambda>(n, l).
                           ext_add
                             (ext_add (ext_times (1 / 2 * real D * (real D + 3)) (ext_log n))
                                (ext_times (- 1) l))
                             (ext_times (- 1)
                                (ext_add (Fin (real D * ln 2)) (ext_times (real D + 1) l))))
                      (zip (sum_axis1 responsibility) log_det_cov);
          AOM = 1 / 1000;
          Il = (nll - real D * real N * ln AOM) / ln 2;
          log_prior = 0;
          I_t = map (\<lambda>f. ext_div (ext_add (Fin log_prior) (ext_times (1 / 2) f)) (ln 2)) log_F_m;
          num_free_params = 1 / 2 * real D * (real D + 3) * real M + (real M - 1);
          lattice = ext_div (ext_times (1 / 2 * num_free_params) (log_kappa num_free_params))
                      (ln 2);
          part1 = ext_add (ext_add (ext_add (Fin I_m) (I_w N weight)) (ext_sum I_t)) lattice;
          part2 = Il + (1 / 2 * num_free_params) / ln 2
      in ext_add part1 (Fin part2))"

text \<open>
  \<^verbatim>\<open>_message_length\<close>. For one-dimensional data it raises the undefined name
  \<^verbatim>\<open>UnsureError\<close>, after \<^verbatim>\<open>cov.flatten()[0]\<close>, which raises \<^verbatim>\<open>IndexError\<close> on an
  empty array. An unknown covariance type raises \<^verbatim>\<open>ValueError\<close> in
  \<^verbatim>\<open>_parameters_per_mixture\<close>; then come \<^verbatim>\<open>assert I_w >= -0.5\<close> and
  \<^verbatim>\<open>assert I > 0\<close>, and \<^verbatim>\<open>dofail\<close>. Both assertions let \<open>inf\<close> through: the
  total of a mixture with a singular covariance or a zero weight is \<open>inf\<close>, and it is
  returned. Covariances and memberships of different numbers are outside the model.
\<close>

definition message_length ::
  "vec list \<Rightarrow> vec list \<Rightarrow> covariance list \<Rightarrow> real list \<Rightarrow> mat \<Rightarrow> real \<Rightarrow> string \<Rightarrow> bool
   \<Rightarrow> error + ext" where
  "message_length y mu cov weight responsibility nll covariance_type dofail =
     (let N = length y;
          D = ncols y;
          M = length weight
      in if D = 1 then (if cov_flatten cov = [] then Inl IndexError else Inl NameError)
         else case cov_matrices D cov covariance_type of
           None \<Rightarrow> Inl Unmodelled
         | Some cov_m \<Rightarrow>
             if length cov_m \<noteq> length responsibility then Inl Unmodelled
             else
               (case parameters_per_mixture D covariance_type of
                  Inl e \<Rightarrow> Inl e
                | Inr N_cp \<Rightarrow>
                    let I = total_length N D (map det cov_m) weight responsibility nll
                    in if \<not> ext_ge (I_w N weight) (- 1 / 2) then Inl AssertionError
                       else if \<not> ext_gt I 0 then Inl AssertionError
                       else if dofail then Inl NameError
                       else Inr I))"

text \<open>\<^verbatim>\<open>mixture_search._expectation\<close>.\<close>

definition search_expectation ::
  "vec list \<Rightarrow> vec list \<Rightarrow> covariance list \<Rightarrow> real list \<Rightarrow> string \<Rightarrow> bool
   \<Rightarrow> error + (mat \<times> vec \<times> ext)" where
  "search_expectation y mu cov weight covariance_type dofail =
     (case search_responsibility_matrix y mu cov weight covariance_type dofail of
        Inl e \<Rightarrow> Inl e
      | Inr (responsibility, log_likelihood) \<Rightarrow>
          let nll = - sum_list log_likelihood
          in case message_length y mu cov weight responsibility nll covariance_type dofail of
               Inl e \<Rightarrow> Inl e
             | Inr I \<Rightarrow> Inr (responsibility, log_likelihood, I))"

text \<open>
  \<^verbatim>\<open>mixture_search._maximization\<close>. The means use the responsibilities scaled by the
  parent's, the covariances the unscaled ones. The three assertions
  \<^verbatim>\<open>assert np.all(np.isfinite(...))\<close> refuse a mean divided by a zero membership and
  a covariance divided by a zero denominator.
\<close>

definition search_maximization ::
  "vec list \<Rightarrow> vec list \<Rightarrow> covariance list \<Rightarrow> real list \<Rightarrow> mat \<Rightarrow> vec option \<Rightarrow> string
   \<Rightarrow> real \<Rightarrow> error + (vec list \<times> covariance list \<times> real list)" where
  "search_maximization y mu cov weight responsibility parent_responsibility covariance_type
      covariance_regularization =
     (let M = length weight;
          N = length y;
          new_weight = new_weights N M responsibility;
          w_responsibility = scale_rows parent_responsibility responsibility;
          w_effective_membership = sum_axis1 w_responsibility;
          new_mu = map (\<lambda>m. weighted_mean y (w_responsibility ! m) (w_effective_membership ! m))
                     [0..<M]
      in case estimate_covariance_matrix y responsibility new_mu covariance_type
                covariance_regularization of
           Inl e \<Rightarrow> Inl e
         | Inr new_cov \<Rightarrow>
             if list_ex (\<lambda>m. w_effective_membership ! m = 0) [0..<M] then Inl AssertionError
             else case those new_cov of
                    None \<Rightarrow> Inl AssertionError
                  | Some new_cov' \<Rightarrow> Inr (new_mu, new_cov', new_weight))"

type_synonym search_result =
  "vec list \<times> covariance list \<times> real list \<times> mat \<times> vec meta \<times> ext"

text \<open>The keyword arguments every function of \<^verbatim>\<open>mixture_search\<close> passes on.\<close>

record kwds =
  kw_threshold :: real
  kw_max_em_iterations :: nat
  kw_covariance_type :: string
  kw_covariance_regularization :: real
  kw_dofail :: bool

function search_em_loop ::
  "vec list \<Rightarrow> kwds \<Rightarrow> vec option
   \<Rightarrow> vec list \<Rightarrow> covariance list \<Rightarrow> real list \<Rightarrow> mat \<Rightarrow> real \<Rightarrow> nat
   \<Rightarrow> error + search_result" where
  "search_em_loop y kw parent_responsibility mu cov weight responsibility prev_ll iterations =
     (case search_maximization y mu cov weight responsibility parent_responsibility
             (kw_covariance_type kw) (kw_covariance_regularization kw) of
        Inl e \<Rightarrow> Inl e
      | Inr (mu', cov', weight') \<Rightarrow>
          (case search_expectation y mu' cov' weight' (kw_covariance_type kw) (kw_dofail kw) of
             Inl e \<Rightarrow> Inl e
           | Inr (responsibility', ll, dl) \<Rightarrow>
               if prev_ll = 0 then Inl AssertionError
               else if \<bar>(sum_list ll - prev_ll) / prev_ll\<bar> \<le> kw_threshold kw
                       \<or> iterations + 1 \<ge> kw_max_em_iterations kw
               then Inr (mu', cov', weight', responsibility',
                         \<lparr>meta_warnflag = iterations + 1 \<ge> kw_max_em_iterations kw,
                          meta_log_likelihood = ll\<rparr>,
                         dl)
               else search_em_loop y kw parent_responsibility mu' cov' weight' responsibility'
                      (sum_list ll) (iterations + 1)))"
  by pat_completeness auto
termination
  by (relation "measure (\<lambda>(y, kw, parent, mu, cov, weight, responsibility, prev_ll,
                            iterations). kw_max_em_iterations kw - iterations)")
     auto

definition search_expectation_maximization ::
  "vec list \<Rightarrow> vec list \<Rightarrow> covariance list \<Rightarrow> real list \<Rightarrow> mat option \<Rightarrow> vec option
   \<Rightarrow> kwds \<Rightarrow> error + search_result" where
  "search_expectation_maximization y mu cov weight responsibility parent_responsibility kw =
     (case search_expectation y mu cov weight (kw_covariance_type kw) (kw_dofail kw) of
        Inl e \<Rightarrow> Inl e
      | Inr (init_responsibility, ll, dl) \<Rightarrow>
          search_em_loop y kw parent_responsibility mu cov weight
            (case responsibility of None \<Rightarrow> init_responsibility | Some r \<Rightarrow> r)
            (sum_list ll) 1)"

section \<open>mixture\_search: the Kullback-Leibler distance and the three perturbations\<close>

text \<open>
  \<^verbatim>\<open>mixture_search.kullback_leibler_for_multivariate_normals\<close>: a covariance given as
  a vector is first multiplied with \<^verbatim>\<open>np.eye\<close>; the rest is the function of
  \<^verbatim>\<open>mixture_ka\<close>.
\<close>

definition as_matrix :: "covariance \<Rightarrow> mat" where
  "as_matrix c = (case c of Full m \<Rightarrow> m | Diag v \<Rightarrow> map (\<lambda>irow. vmul v irow) (eye (length v)))"

definition search_kullback_leibler_for_multivariate_normals ::
  "vec \<Rightarrow> covariance \<Rightarrow> vec \<Rightarrow> covariance \<Rightarrow> error + real" where
  "search_kullback_leibler_for_multivariate_normals mu_a cov_a mu_b cov_b =
     kullback_leibler_for_multivariate_normals mu_a (as_matrix cov_a) mu_b (as_matrix cov_b)"

text \<open>\<^verbatim>\<open>_svd\<close>: the decomposition of the covariance, by its type.\<close>

definition search_svd :: "svd_fun \<Rightarrow> covariance \<Rightarrow> string \<Rightarrow> error + (mat \<times> vec \<times> mat)" where
  "search_svd svd c ctype =
     (if ctype = ''full'' then (case c of Full m \<Rightarrow> Inr (svd m) | Diag v \<Rightarrow> Inl Unmodelled)
      else if ctype = ''diag'' then (case c of Diag v \<Rightarrow> Inr (svd (as_matrix c)) | Full m \<Rightarrow> Inl Unmodelled)
      else Inl ValueError)"

text \<open>
  The seed of the children's responsibilities in \<^verbatim>\<open>mixture_search.split_component\<close>:
  the squared distances to the two child means, and a one in the row
  \<^verbatim>\<open>np.argmin(distance, axis=0)\<close> of every column of a matrix of zeros; the first
  row wins a tie.
\<close>

definition squared_distance :: "vec \<Rightarrow> vec \<Rightarrow> real" where
  "squared_distance yi m = (\<Sum>d\<leftarrow>vsub yi m. d\<^sup>2)"

definition search_child_responsibility :: "vec list \<Rightarrow> vec list \<Rightarrow> mat" where
  "search_child_responsibility y child_mu =
     (let d0 = map (\<lambda>yi. squared_distance yi (child_mu ! 0)) y;
          d1 = map (\<lambda>yi. squared_distance yi (child_mu ! 1)) y
      in [map (\<lambda>(a, b). if b < a then 0 else 1) (zip d0 d1),
          map (\<lambda>(a, b). if b < a then 1 else 0) (zip d0 d1)])"

text \<open>\<^verbatim>\<open>child_mu = mu[index] - np.vstack([+V[0], -V[0]]) * S[0]**0.5\<close>.\<close>

definition search_child_mu :: "vec \<Rightarrow> vec \<Rightarrow> mat \<Rightarrow> vec list" where
  "search_child_mu mu_index S V =
     [vsub mu_index (map (\<lambda>v. v * sqrt (S ! 0)) (V ! 0)),
      vsub mu_index (map (\<lambda>v. - v * sqrt (S ! 0)) (V ! 0))]"

text \<open>\<^verbatim>\<open>mixture_search.split_component\<close>.\<close>

definition search_split_component ::
  "svd_fun \<Rightarrow> vec list \<Rightarrow> vec list \<Rightarrow> covariance list \<Rightarrow> real list \<Rightarrow> mat \<Rightarrow> nat \<Rightarrow> kwds
   \<Rightarrow> error + search_result" where
  "search_split_component svd y mu cov weight responsibility index kw =
     (let M = length weight;
          N = length y
      in if index \<ge> length cov \<or> index \<ge> length mu \<or> index \<ge> M
            \<or> index \<ge> length responsibility then Inl IndexError
      else
      case search_svd svd (cov ! index) (kw_covariance_type kw) of
        Inl e \<Rightarrow> Inl e
      | Inr (U, S, V) \<Rightarrow>
          if S ! 0 < 0 then Inl AssertionError
          else
          let child_mu = search_child_mu (mu ! index) S V;
              child_responsibility = search_child_responsibility y child_mu
          in case estimate_covariance_matrix y child_responsibility child_mu
                    (kw_covariance_type kw) (kw_covariance_regularization kw) of
               Inl e \<Rightarrow> Inl e
             | Inr child_cov_opt \<Rightarrow>
                 let child_effective_membership = sum_axis1 child_responsibility;
                     child_weight = map (\<lambda>e. e / sum_list child_effective_membership)
                                      child_effective_membership;
                     parent_weight = weight ! index;
                     parent_responsibility = responsibility ! index
                 in case those child_cov_opt of
                      None \<Rightarrow> Inl NonFinite
                    | Some child_cov \<Rightarrow>
                        if sum_list child_effective_membership = 0 then Inl NonFinite
                        else if M > 1 then
                          search_expectation_maximization y
                            ((mu @ [child_mu ! 1])[index := child_mu ! 0])
                            ((cov @ [child_cov ! 1])[index := child_cov ! 0])
                            ((weight @ [parent_weight * child_weight ! 1])
                               [index := parent_weight * child_weight ! 0])
                            (Some ((responsibility
                                    @ [vmul parent_responsibility (child_responsibility ! 1)])
                               [index := vmul parent_responsibility (child_responsibility ! 0)]))
                            None kw
                        else
                          search_expectation_maximization y child_mu child_cov child_weight
                            (Some child_responsibility) (Some parent_responsibility) kw)"

text \<open>
  \<^verbatim>\<open>mixture_search.delete_component\<close>. The weights are renormalized and clipped to
  \<open>[0, 1]\<close>; the responsibilities too, and their \<open>nan\<close> (a \<open>0/0\<close>) are set to zero. A
  \<open>nan\<close> among the weights fails \<^verbatim>\<open>assert np.all(np.isfinite(new_weight))\<close>.
\<close>

definition search_delete_weight :: "real list \<Rightarrow> nat \<Rightarrow> real option list" where
  "search_delete_weight weight index =
     map (\<lambda>w. delete_entry (weight ! index) w) (np_delete weight index)"

definition search_delete_responsibility :: "mat \<Rightarrow> nat \<Rightarrow> mat" where
  "search_delete_responsibility responsibility index =
     map (\<lambda>row. map (\<lambda>(r, p). case delete_entry p r of None \<Rightarrow> 0 | Some v \<Rightarrow> v)
                  (zip row (responsibility ! index)))
       (np_delete responsibility index)"

definition search_delete_component ::
  "vec list \<Rightarrow> vec list \<Rightarrow> covariance list \<Rightarrow> real list \<Rightarrow> mat \<Rightarrow> nat \<Rightarrow> kwds
   \<Rightarrow> error + search_result" where
  "search_delete_component y mu cov weight responsibility index kw =
     (if index \<ge> length weight \<or> index \<ge> length responsibility
         \<or> index \<ge> length mu \<or> index \<ge> length cov then Inl IndexError
      else
        case those (search_delete_weight weight index) of
          None \<Rightarrow> Inl AssertionError
        | Some new_weight \<Rightarrow>
            search_expectation_maximization y (np_delete mu index) (np_delete cov index)
              new_weight (Some (search_delete_responsibility responsibility index)) None kw)"

text \<open>\<^verbatim>\<open>mixture_search.merge_component\<close>.\<close>

fun search_D_kl ::
  "vec list \<Rightarrow> covariance list \<Rightarrow> nat \<Rightarrow> nat list \<Rightarrow> error + real option list" where
  "search_D_kl mu cov index [] = Inr []"
| "search_D_kl mu cov index (m # ms) =
     (if m = index then
        (case search_D_kl mu cov index ms of Inl e \<Rightarrow> Inl e | Inr ds \<Rightarrow> Inr (None # ds))
      else
        (case search_kullback_leibler_for_multivariate_normals
                (mu ! index) (cov ! index) (mu ! m) (cov ! m) of
           Inl e \<Rightarrow> Inl e
         | Inr d \<Rightarrow>
             (case search_D_kl mu cov index ms of
                Inl e \<Rightarrow> Inl e
              | Inr ds \<Rightarrow> Inr (Some d # ds))))"

record search_merged =
  s_partner :: nat
  s_merged_mu :: "vec list"
  s_merged_cov :: "covariance list"
  s_merged_weight :: "real list"
  s_merged_responsibility :: mat

definition search_merge_arrays ::
  "vec list \<Rightarrow> vec list \<Rightarrow> covariance list \<Rightarrow> real list \<Rightarrow> mat \<Rightarrow> nat \<Rightarrow> kwds
   \<Rightarrow> error + search_merged" where
  "search_merge_arrays y mu cov weight responsibility index kw =
     (if index \<ge> length weight \<or> index \<ge> length responsibility
         \<or> index \<ge> length mu \<or> index \<ge> length cov then Inl IndexError
      else
      case search_D_kl mu cov index [0..<length weight] of
        Inl e \<Rightarrow> Inl e
      | Inr D_kl \<Rightarrow>
          let a_index = index;
              b_index = nanargmin D_kl;
              weight_k = weight ! a_index + weight ! b_index;
              responsibility_k = vadd (responsibility ! a_index) (responsibility ! b_index);
              effective_membership_k = sum_list responsibility_k;
              mu_k = weighted_mean y responsibility_k effective_membership_k;
              del_index = max a_index b_index;
              keep_index = min a_index b_index
          in case estimate_covariance_matrix y [responsibility_k] [mu_k]
                    (kw_covariance_type kw) (kw_covariance_regularization kw) of
               Inl e \<Rightarrow> Inl e
             | Inr cov_k \<Rightarrow>
                 if keep_index \<ge> length (np_delete mu del_index) then Inl IndexError
                 else case those cov_k of
                        None \<Rightarrow> Inl NonFinite
                      | Some cov_k' \<Rightarrow>
                          Inr \<lparr>s_partner = b_index,
                               s_merged_mu = (np_delete mu del_index)[keep_index := mu_k],
                               s_merged_cov = (np_delete cov del_index)[keep_index := cov_k' ! 0],
                               s_merged_weight =
                                 (np_delete weight del_index)[keep_index := weight_k],
                               s_merged_responsibility =
                                 (np_delete responsibility del_index)
                                   [keep_index := responsibility_k]\<rparr>)"

definition search_merge_component ::
  "vec list \<Rightarrow> vec list \<Rightarrow> covariance list \<Rightarrow> real list \<Rightarrow> mat \<Rightarrow> nat \<Rightarrow> kwds
   \<Rightarrow> error + search_result" where
  "search_merge_component y mu cov weight responsibility index kw =
     (case search_merge_arrays y mu cov weight responsibility index kw of
        Inl e \<Rightarrow> Inl e
      | Inr g \<Rightarrow>
          search_expectation_maximization y (s_merged_mu g) (s_merged_cov g) (s_merged_weight g)
            (Some (s_merged_responsibility g)) None kw)"

section \<open>Predicates of the specification\<close>

text \<open>
  A responsibility matrix over \<open>N\<close> observations: every row has \<open>N\<close> entries, none
  negative, and every column sums to one.
\<close>

definition responsibility_columns_sum_to_one :: "nat \<Rightarrow> mat \<Rightarrow> bool" where
  "responsibility_columns_sum_to_one N responsibility =
     (list_all (\<lambda>row. length row = N \<and> list_all (\<lambda>r. 0 \<le> r) row) responsibility
      \<and> list_all (\<lambda>i. sum_list (column responsibility i) = 1) [0..<N])"

text \<open>
  A symmetric positive-definite matrix, by Sylvester's criterion: square, symmetric, and
  every leading principal minor positive.
\<close>

definition symmetric_positive_definite :: "mat \<Rightarrow> bool" where
  "symmetric_positive_definite C =
     (list_all (\<lambda>row. length row = length C) C
      \<and> list_all (\<lambda>i. list_all (\<lambda>j. C ! i ! j = C ! j ! i) [0..<length C]) [0..<length C]
      \<and> list_all (\<lambda>k. 0 < det (map (take k) (take k C))) [1..<Suc (length C)])"

text \<open>
  A \<open>K \<times> N\<close> matrix with every entry in \<open>[0, 1]\<close> and every column summing to one
  within \<open>10\<^sup>-\<^sup>8\<close>.
\<close>

definition is_responsibility_matrix :: "nat \<Rightarrow> nat \<Rightarrow> mat \<Rightarrow> bool" where
  "is_responsibility_matrix K N R =
     (length R = K
      \<and> list_all (\<lambda>row. length row = N \<and> list_all (\<lambda>r. 0 \<le> r \<and> r \<le> 1) row) R
      \<and> list_all (\<lambda>i. \<bar>sum_list (column R i) - 1\<bar> \<le> 1 / 10 ^ 8) [0..<N])"

text \<open>
  The partner of a merge, in the words of the specification: among the \<open>K\<close> components
  other than \<open>index\<close> it has the least distance, and every component before it has a
  strictly greater one (a tie goes to the first). Every distance must have been computed.
\<close>

definition closest_partner :: "(nat \<Rightarrow> error + real) \<Rightarrow> nat \<Rightarrow> nat \<Rightarrow> nat \<Rightarrow> bool" where
  "closest_partner distance K index b =
     (b < K \<and> b \<noteq> index
      \<and> (case distance b of
            Inl e \<Rightarrow> False
          | Inr db \<Rightarrow>
              list_all (\<lambda>m. m = index
                            \<or> (case distance m of
                                  Inl e \<Rightarrow> False
                                | Inr dm \<Rightarrow> db \<le> dm \<and> (m < b \<longrightarrow> db < dm)))
                [0..<K]))"

text \<open>
  The arrays after a merge of the components \<open>a\<close> and \<open>b\<close>: one entry less, the merged
  entry at the lower of the two indices, the entry at the higher index gone, and the other
  entries in their order.
\<close>

definition replaced_by_merge :: "'a list \<Rightarrow> nat \<Rightarrow> nat \<Rightarrow> 'a \<Rightarrow> 'a list \<Rightarrow> bool" where
  "replaced_by_merge xs a b merged ys =
     (length ys = length xs - 1
      \<and> ys ! min a b = merged
      \<and> list_all (\<lambda>m. m = min a b \<or> ys ! m = xs ! (if m < max a b then m else Suc m))
           [0..<length ys])"

text \<open>
  The Kullback-Leibler divergence from the normal distribution \<open>a\<close> to the normal
  distribution \<open>b\<close>, as the specification names it and the docstring of
  \<^verbatim>\<open>kullback_leibler_for_multivariate_normals\<close> writes it: half of
  \<open>Tr(\<Sigma>\<^sub>b\<^sup>-\<^sup>1 \<Sigma>\<^sub>a) + (\<mu>\<^sub>b - \<mu>\<^sub>a)\<^sup>T \<Sigma>\<^sub>b\<^sup>-\<^sup>1 (\<mu>\<^sub>b - \<mu>\<^sub>a) - k + ln (det \<Sigma>\<^sub>b / det \<Sigma>\<^sub>a)\<close>.
\<close>

definition kullback_leibler_divergence :: "vec \<Rightarrow> mat \<Rightarrow> vec \<Rightarrow> mat \<Rightarrow> error + real" where
  "kullback_leibler_divergence mu_a cov_a mu_b cov_b =
     (case svd_inverse cov_b of
        Inl e \<Rightarrow> Inl e
      | Inr Cb_inv \<Rightarrow>
          let k = length mu_a;
              offset = vsub mu_b mu_a
          in if det cov_b / det cov_a \<le> 0 then Inl NonFinite
             else Inr (1 / 2 * (trace (mat_mul Cb_inv cov_a)
                                + vdot offset (mat_vec Cb_inv offset)
                                - real k
                                + ln (det cov_b / det cov_a))))"




text \<open>
  A result or a state of the search that holds \<open>K\<close> components (\<open>K\<close> means,
  covariances, weights and responsibility rows), and the number of components after an
  operation: one more for a split, one less for a deletion or a merge.
\<close>

definition same_size :: "nat \<Rightarrow> ka_result \<Rightarrow> bool" where
  "same_size K res =
     (case res of (mu, cov, weight, R, meta, dl) \<Rightarrow>
        length mu = K \<and> length cov = K \<and> length weight = K \<and> length R = K)"



section \<open>Properties\<close>

subsection \<open>The divisor of the covariance estimators\<close>

lemma denominator_pos: "0 < nm \<Longrightarrow> 0 < denominator nm"
  by (simp add: denominator_def)

lemma estimate_full_nth:
  assumes "m < length mean" "m < length responsibility"
  shows "estimate_covariance_matrix_full y responsibility mean reg ! m =
         cov_full_row y reg (mean ! m) (responsibility ! m) (sum_list (responsibility ! m))"
  using assms by (simp add: estimate_covariance_matrix_full_def sum_axis1_def)

lemma estimate_diag_nth:
  assumes "m < length mean" "m < length responsibility"
  shows "estimate_covariance_matrix_diag y responsibility mean reg ! m =
         cov_diag_row y reg (mean ! m) (responsibility ! m) (sum_list (responsibility ! m))"
  using assms by (simp add: estimate_covariance_matrix_diag_def sum_axis1_def)

text \<open>
  C10. In both covariance estimators of \<^verbatim>\<open>mixture_search\<close>, a responsibility row whose
  effective membership \<open>nm\<close> is strictly positive is divided by a strictly positive number:
  \<open>nm - 1\<close> when \<open>nm > 1\<close> and \<open>nm\<close> itself otherwise. So the component's covariance is
  computed (it is not \<open>None\<close>), as the weighted scatter over that divisor plus the
  regularization.
\<close>

theorem covariance_divisor_positive:
  assumes "m < length mean" "m < length responsibility"
    and "nm = sum_list (responsibility ! m)" "0 < nm"
  shows "0 < denominator nm
       \<and> denominator nm = (if 1 < nm then nm - 1 else nm)
       \<and> estimate_covariance_matrix_full y responsibility mean reg ! m =
           Some (map (\<lambda>(srow, irow). map (\<lambda>(s, i). s / denominator nm + reg * i) (zip srow irow))
                  (zip (scatter (ncols y) (responsibility ! m) (map (\<lambda>yi. vsub yi (mean ! m)) y))
                       (eye (ncols y))))
       \<and> estimate_covariance_matrix_diag y responsibility mean reg ! m =
           Some (map (\<lambda>s. s / denominator nm + reg)
                  (scatter_diag (ncols y) (responsibility ! m) (map (\<lambda>yi. vsub yi (mean ! m)) y)))"
proof -
  have pos: "0 < denominator nm"
    using assms(4) by (rule denominator_pos)
  then have nz: "denominator nm \<noteq> 0"
    by simp
  have "denominator nm = (if 1 < nm then nm - 1 else nm)"
    by (simp add: denominator_def)
  moreover have "estimate_covariance_matrix_full y responsibility mean reg ! m =
      cov_full_row y reg (mean ! m) (responsibility ! m) nm"
    using assms(1,2,3) by (simp add: estimate_full_nth)
  moreover have "estimate_covariance_matrix_diag y responsibility mean reg ! m =
      cov_diag_row y reg (mean ! m) (responsibility ! m) nm"
    using assms(1,2,3) by (simp add: estimate_diag_nth)
  ultimately show ?thesis
    using pos nz by (simp add: cov_full_row_def cov_diag_row_def Let_def)
qed

text \<open>
  An instance: two observations \<open>0\<close> and \<open>2\<close> on the line, one component of mean \<open>1\<close>
  holding each observation with responsibility \<open>1/4\<close>. The membership is \<open>1/2\<close>, not
  above one, so the divisor is \<open>1/2\<close> and the variance is \<open>(1/4 + 1/4) / (1/2) = 1\<close>.
\<close>

theorem covariance_divisor_positive_witness:
  "denominator (1/2) = 1/2
   \<and> estimate_covariance_matrix_full [[0], [2]] [[1/4, 1/4]] [[1]] 0 ! 0 = Some [[1]]
   \<and> estimate_covariance_matrix_diag [[0], [2]] [[1/4, 1/4]] [[1]] 0 ! 0 = Some [1]"
  using covariance_divisor_positive
    [of 0 "[[1]]" "[[1/4, 1/4]]" "1/2" "[[0], [2]]" 0]
  by (simp add: scatter_def scatter_diag_def eye_def ncols_def vsub_def power2_eq_square)

subsection \<open>The weights after a deletion\<close>

lemma sum_list_div: "(\<Sum>x\<leftarrow>xs. f x / (c::real)) = (\<Sum>x\<leftarrow>xs. f x) / c"
  by (induction xs) (simp_all add: add_divide_distrib)

lemma sum_list_np_delete:
  "i < length xs \<Longrightarrow> sum_list (np_delete xs i) = sum_list xs - (xs ! i :: real)"
proof -
  assume a: "i < length xs"
  have "xs = take i xs @ (xs ! i) # drop (Suc i) xs" using a by (simp add: id_take_nth_drop)
  then have "sum_list xs = sum_list (take i xs) + xs ! i + sum_list (drop (Suc i) xs)"
    by (metis add.assoc sum_list.Cons sum_list.append)
  then show ?thesis by (simp add: np_delete_def)
qed

lemma ka_delete_sum:
  assumes "index < length weight" "sum_list weight = 1" "weight ! index < 1"
  shows "sum_list (ka_delete_weight weight index) = 1"
proof -
  have "sum_list (ka_delete_weight weight index) = sum_list (np_delete weight index) / (1 - weight ! index)"
    by (simp add: ka_delete_weight_def sum_list_div)
  also have "\<dots> = (1 - weight ! index) / (1 - weight ! index)"
    using assms by (simp add: sum_list_np_delete)
  also have "\<dots> = 1" using assms by simp
  finally show ?thesis .
qed

lemma set_np_delete: "set (np_delete xs i) \<subseteq> set xs"
  unfolding np_delete_def by (auto dest: in_set_takeD in_set_dropD)

lemma member_le_sum_list:
  assumes "\<forall>x\<in>set xs. 0 \<le> (x::real)" "x \<in> set xs"
  shows "x \<le> sum_list xs"
  using assms by (simp add: member_le_sum_list)

lemma those_map_Some:
  "(\<And>x. x \<in> set xs \<Longrightarrow> f x = Some (g x)) \<Longrightarrow> those (map f xs) = Some (map g xs)"
  by (induction xs) simp_all

lemma search_delete_those:
  assumes "index < length weight" "sum_list weight = 1" "weight ! index < 1"
    "\<forall>w\<in>set weight. 0 \<le> w"
  shows "those (search_delete_weight weight index) = Some (ka_delete_weight weight index)"
proof -
  let ?p = "weight ! index"
  have nonneg: "\<forall>w\<in>set (np_delete weight index). 0 \<le> w"
    using assms(4) set_np_delete [of weight index] by auto
  have tot: "sum_list (np_delete weight index) = 1 - ?p"
    using assms(1,2) by (simp add: sum_list_np_delete)
  have "delete_entry ?p w = Some (w / (1 - ?p))" if "w \<in> set (np_delete weight index)" for w
  proof -
    have pos: "0 < 1 - ?p" using assms(3) by simp
    have w0: "0 \<le> w" using nonneg that by auto
    have "w \<le> sum_list (np_delete weight index)"
      using nonneg that by (rule member_le_sum_list)
    then have w1: "w \<le> 1 - ?p" using tot by simp
    have q0: "\<not> w / (1 - ?p) < 0" using w0 pos by (simp add: not_less)
    have q1: "\<not> 1 < w / (1 - ?p)" using w1 pos by (simp add: not_less)
    have "?p \<noteq> 1" using assms(3) by simp
    then show ?thesis using q0 q1
      unfolding delete_entry_def clip_def by simp
  qed
  then show ?thesis
    unfolding search_delete_weight_def ka_delete_weight_def by (rule those_map_Some)
qed

text \<open>
  C7. For weights that sum to one and a removed weight strictly below one, the weights that
  \<^verbatim>\<open>delete_component\<close> hands to the E-M, each remaining weight divided by one minus
  the removed weight, sum to one (so within \<open>10\<^sup>-\<^sup>8\<close>). In \<^verbatim>\<open>mixture_ka\<close> this is
  all the renormalization does; in \<^verbatim>\<open>mixture_search\<close> the quotients are also clipped
  to \<open>[0, 1]\<close>, which leaves them as they are when the weights are those of a mixture
  (none negative), and then no weight is a \<open>nan\<close>.
\<close>

theorem delete_weights_sum_to_one:
  assumes "index < length weight" "sum_list weight = 1" "weight ! index < 1"
  shows "\<bar>sum_list (ka_delete_weight weight index) - 1\<bar> \<le> 1 / 10 ^ 8
       \<and> ((\<forall>w\<in>set weight. 0 \<le> w) \<longrightarrow>
            (\<exists>new_weight. those (search_delete_weight weight index) = Some new_weight
                \<and> new_weight = map (\<lambda>w. w / (1 - weight ! index)) (np_delete weight index)
                \<and> \<bar>sum_list new_weight - 1\<bar> \<le> 1 / 10 ^ 8))"
proof -
  have one: "sum_list (ka_delete_weight weight index) = 1"
    using assms by (rule ka_delete_sum)
  have unfold: "ka_delete_weight weight index
      = map (\<lambda>w. w / (1 - weight ! index)) (np_delete weight index)"
    by (simp add: ka_delete_weight_def)
  have "those (search_delete_weight weight index) = Some (ka_delete_weight weight index)"
    if "\<forall>w\<in>set weight. 0 \<le> w"
    using assms that by (rule search_delete_those)
  then show ?thesis
    using one unfold by simp
qed

text \<open>Removing the weight \<open>1/2\<close> from \<open>[1/2, 1/4, 1/4]\<close> leaves \<open>[1/2, 1/2]\<close>.\<close>

theorem delete_weights_sum_to_one_witness:
  "ka_delete_weight [1/2, 1/4, 1/4] 0 = [1/2, 1/2]
   \<and> those (search_delete_weight [1/2, 1/4, 1/4] 0) = Some [1/2, 1/2]
   \<and> \<bar>sum_list (ka_delete_weight [1/2, 1/4, 1/4] 0) - 1\<bar> \<le> 1 / 10 ^ 8"
proof -
  have a: "(0::nat) < length [1/2, 1/4, 1/4 :: real]" by simp
  have b: "sum_list [1/2, 1/4, 1/4 :: real] = 1" by simp
  have c: "[1/2, 1/4, 1/4 :: real] ! 0 < 1" by simp
  have d: "ka_delete_weight [1/2, 1/4, 1/4] 0 = [1/2, 1/2]"
    by (simp add: ka_delete_weight_def np_delete_def)
  have e: "those (search_delete_weight [1/2, 1/4, 1/4] 0) = Some [1/2, 1/2]"
    by (simp add: search_delete_weight_def np_delete_def delete_entry_def clip_def)
  have f: "\<bar>sum_list (ka_delete_weight [1/2, 1/4, 1/4] 0) - 1\<bar> \<le> 1 / 10 ^ 8"
    using delete_weights_sum_to_one [OF a b c] by (rule conjunct1)
  show ?thesis
    using d e f by (intro conjI)
qed

subsection \<open>The weights of the M-step\<close>

lemma sum_rows_eq_sum_columns:
  "\<forall>row\<in>set R. length row = N \<Longrightarrow>
   sum_list (sum_axis1 R) = sum_list (sum_axis0 N R)"
proof (induction R)
  case Nil
  then show ?case by (simp add: sum_axis1_def sum_axis0_def column_def)
next
  case (Cons r R)
  have len: "length r = N" using Cons.prems by simp
  have "sum_list (sum_axis0 N (r # R)) = (\<Sum>i\<leftarrow>[0..<N]. r ! i + sum_list (column R i))"
    by (simp add: sum_axis0_def column_def)
  also have "\<dots> = (\<Sum>i\<leftarrow>[0..<N]. r ! i) + (\<Sum>i\<leftarrow>[0..<N]. sum_list (column R i))"
    by (rule sum_list_addf)
  also have "(\<Sum>i\<leftarrow>[0..<N]. r ! i) = sum_list r"
    using len by (metis map_nth)
  also have "(\<Sum>i\<leftarrow>[0..<N]. sum_list (column R i)) = sum_list (sum_axis1 R)"
    using Cons by (simp add: sum_axis0_def)
  finally show ?case by (simp add: sum_axis1_def)
qed

lemma sum_columns_one:
  assumes "\<forall>i<N. sum_list (column R i) = 1"
  shows "sum_list (sum_axis0 N R) = real N"
proof -
  have "map (\<lambda>i. sum_list (column R i)) [0..<N] = map (\<lambda>i. 1) [0..<N]"
    using assms by simp
  then have "sum_list (sum_axis0 N R) = sum_list (map (\<lambda>i. 1::real) [0..<N])"
    unfolding sum_axis0_def by (rule arg_cong)
  also have "\<dots> = real N" by (simp add: sum_list_triv)
  finally show ?thesis .
qed

lemma sum_list_add_const:
  "(\<Sum>x\<leftarrow>xs. (f x + c) / (d::real)) = (sum_list (map f xs) + real (length xs) * c) / d"
  by (induction xs) (simp_all add: add_divide_distrib algebra_simps)

lemma new_weights_sum:
  assumes "weight \<noteq> []" "length responsibility = length weight"
    "\<forall>row\<in>set responsibility. length row = N"
    "\<forall>i<N. sum_list (column responsibility i) = 1"
  shows "sum_list (new_weights N (length weight) responsibility) = 1"
proof -
  let ?K = "length weight"
  have tot: "sum_list (sum_axis1 responsibility) = real N"
    using sum_rows_eq_sum_columns [OF assms(3)] sum_columns_one [OF assms(4)] by simp
  have pos: "0 < real N + real ?K / 2" using assms(1) by (simp add: add_nonneg_pos)
  have "sum_list (new_weights N ?K responsibility)
      = (sum_list (sum_axis1 responsibility) + real (length (sum_axis1 responsibility)) * (1/2))
        / (real N + real ?K / 2)"
    unfolding new_weights_def by (simp add: sum_list_add_const)
  also have "\<dots> = (real N + real ?K / 2) / (real N + real ?K / 2)"
    using tot assms(2) by (simp add: sum_axis1_def)
  also have "\<dots> = 1" using pos by simp
  finally show ?thesis .
qed

lemma new_weights_pos:
  assumes "weight \<noteq> []" "\<forall>row\<in>set responsibility. \<forall>r\<in>set row. 0 \<le> r"
    "w \<in> set (new_weights N (length weight) responsibility)"
  shows "0 < w"
proof -
  have pos: "0 < real N + real (length weight) / 2" using assms(1) by (simp add: add_nonneg_pos)
  obtain row where row: "row \<in> set responsibility"
    and w: "w = (sum_list row + 1 / 2) / (real N + real (length weight) / 2)"
    using assms(3) by (auto simp: new_weights_def sum_axis1_def)
  have "0 \<le> sum_list row" using assms(2) row by (simp add: sum_list_nonneg)
  then show ?thesis using pos w by simp
qed

lemma ka_maximization_weight:
  "ka_maximization y mu cov weight responsibility parent = Inr (mu', cov', weight')
   \<Longrightarrow> weight' = new_weights (length y) (length weight) responsibility"
  by (auto simp: ka_maximization_def Let_def split: if_splits)

lemma search_maximization_weight:
  "search_maximization y mu cov weight responsibility parent ctype reg = Inr (mu', cov', weight')
   \<Longrightarrow> weight' = new_weights (length y) (length weight) responsibility"
  by (auto simp: search_maximization_def Let_def split: if_splits sum.splits option.splits)


lemma new_weights_valid:
  assumes "weight \<noteq> []" "length responsibility = length weight"
    "responsibility_columns_sum_to_one N responsibility"
  shows "list_all (\<lambda>w. 0 < w) (new_weights N (length weight) responsibility)
       \<and> sum_list (new_weights N (length weight) responsibility) = 1"
proof -
  have rows: "\<forall>row\<in>set responsibility. length row = N"
    and nonneg: "\<forall>row\<in>set responsibility. \<forall>r\<in>set row. 0 \<le> r"
    and cols: "\<forall>i<N. sum_list (column responsibility i) = 1"
    using assms(3) by (auto simp: responsibility_columns_sum_to_one_def list_all_iff)
  have "\<forall>w\<in>set (new_weights N (length weight) responsibility). 0 < w"
    using new_weights_pos [OF assms(1) nonneg] by blast
  moreover have "sum_list (new_weights N (length weight) responsibility) = 1"
    using assms(1,2) rows cols by (rule new_weights_sum)
  ultimately show ?thesis by (simp add: list_all_iff)
qed

text \<open>
  C3. Whenever an M-step returns, in \<^verbatim>\<open>mixture_ka\<close> and in \<^verbatim>\<open>mixture_search\<close>, the
  new weight of every component is its effective membership (the sum of its responsibility
  row) plus one half, over \<open>N + K/2\<close>, with \<open>K\<close> the number of weights. When the
  responsibility matrix has one row per weight, no negative entry and columns that sum to
  one, every new weight is strictly positive and the new weights sum to one.
\<close>

theorem maximization_weights:
  shows "(ka_maximization y mu cov weight responsibility parent = Inr (mu', cov', weight') \<longrightarrow>
            weight' = map (\<lambda>row. (sum_list row + 1 / 2) / (real (length y) + real (length weight) / 2))
                        responsibility
            \<and> (weight \<noteq> [] \<and> length responsibility = length weight
                 \<and> responsibility_columns_sum_to_one (length y) responsibility \<longrightarrow>
               list_all (\<lambda>w. 0 < w) weight' \<and> sum_list weight' = 1))
       \<and> (search_maximization y mu cov_s weight responsibility parent ctype reg
              = Inr (mu_s, cov_s', weight_s) \<longrightarrow>
            weight_s = map (\<lambda>row. (sum_list row + 1 / 2) / (real (length y) + real (length weight) / 2))
                        responsibility
            \<and> (weight \<noteq> [] \<and> length responsibility = length weight
                 \<and> responsibility_columns_sum_to_one (length y) responsibility \<longrightarrow>
               list_all (\<lambda>w. 0 < w) weight_s \<and> sum_list weight_s = 1))"
proof -
  have formula: "new_weights (length y) (length weight) responsibility
      = map (\<lambda>row. (sum_list row + 1 / 2) / (real (length y) + real (length weight) / 2))
          responsibility"
    by (simp add: new_weights_def sum_axis1_def)
  have valid: "list_all (\<lambda>w. 0 < w) (new_weights (length y) (length weight) responsibility)
             \<and> sum_list (new_weights (length y) (length weight) responsibility) = 1"
    if "weight \<noteq> [] \<and> length responsibility = length weight
        \<and> responsibility_columns_sum_to_one (length y) responsibility"
    using that new_weights_valid by blast
  have ka: "weight' = new_weights (length y) (length weight) responsibility"
    if "ka_maximization y mu cov weight responsibility parent = Inr (mu', cov', weight')"
    using that by (rule ka_maximization_weight)
  have se: "weight_s = new_weights (length y) (length weight) responsibility"
    if "search_maximization y mu cov_s weight responsibility parent ctype reg
          = Inr (mu_s, cov_s', weight_s)"
    using that by (rule search_maximization_weight)
  show ?thesis
  proof (intro conjI impI)
    assume a: "ka_maximization y mu cov weight responsibility parent = Inr (mu', cov', weight')"
    show "weight' = map (\<lambda>row. (sum_list row + 1 / 2) / (real (length y) + real (length weight) / 2))
                        responsibility"
      using ka [OF a] formula by simp
  next
    assume a: "ka_maximization y mu cov weight responsibility parent = Inr (mu', cov', weight')"
      and b: "weight \<noteq> [] \<and> length responsibility = length weight
        \<and> responsibility_columns_sum_to_one (length y) responsibility"
    show "list_all (\<lambda>w. 0 < w) weight'" using ka [OF a] valid [OF b] by simp
    show "sum_list weight' = 1" using ka [OF a] valid [OF b] by simp
  next
    assume a: "search_maximization y mu cov_s weight responsibility parent ctype reg
          = Inr (mu_s, cov_s', weight_s)"
    show "weight_s = map (\<lambda>row. (sum_list row + 1 / 2) / (real (length y) + real (length weight) / 2))
                        responsibility"
      using se [OF a] formula by simp
  next
    assume a: "search_maximization y mu cov_s weight responsibility parent ctype reg
          = Inr (mu_s, cov_s', weight_s)"
      and b: "weight \<noteq> [] \<and> length responsibility = length weight
        \<and> responsibility_columns_sum_to_one (length y) responsibility"
    show "list_all (\<lambda>w. 0 < w) weight_s" using se [OF a] valid [OF b] by simp
    show "sum_list weight_s = 1" using se [OF a] valid [OF b] by simp
  qed
qed

text \<open>
  Four observations on the line, the first two held by one component and the last two by
  the other: both M-steps return the weights \<open>[1/2, 1/2]\<close>.
\<close>

lemma ka_max_example:
  "ka_maximization [[0], [1], [4], [5]] [[0], [0]] [[[1]], [[1]]] [1/4, 3/4]
      [[1, 1, 0, 0], [0, 0, 1, 1]] None
   = Inr ([[1/2], [9/2]], [[[1/2]], [[1/2]]], [1/2, 1/2])"
  by (simp add: ka_maximization_def new_weights_def scale_rows_def sum_axis1_def
      weighted_mean_def weighted_cov_def scatter_def ncols_def vsub_def Let_def)

lemma search_max_example:
  "search_maximization [[0], [1], [4], [5]] [[0], [0]] [Full [[1]], Full [[1]]] [1/4, 3/4]
      [[1, 1, 0, 0], [0, 0, 1, 1]] None ''full'' 0
   = Inr ([[1/2], [9/2]], [Full [[1/2]], Full [[1/2]]], [1/2, 1/2])"
  by (simp add: search_maximization_def new_weights_def scale_rows_def sum_axis1_def
      weighted_mean_def estimate_covariance_matrix_def estimate_covariance_matrix_full_def
      cov_full_row_def denominator_def eye_def scatter_def ncols_def vsub_def Let_def)


theorem maximization_weights_witness:
  "ka_maximization [[0], [1], [4], [5]] [[0], [0]] [[[1]], [[1]]] [1/4, 3/4]
      [[1, 1, 0, 0], [0, 0, 1, 1]] None
     = Inr ([[1/2], [9/2]], [[[1/2]], [[1/2]]], [1/2, 1/2])
   \<and> search_maximization [[0], [1], [4], [5]] [[0], [0]] [Full [[1]], Full [[1]]] [1/4, 3/4]
      [[1, 1, 0, 0], [0, 0, 1, 1]] None ''full'' 0
     = Inr ([[1/2], [9/2]], [Full [[1/2]], Full [[1/2]]], [1/2, 1/2])
   \<and> responsibility_columns_sum_to_one 4 [[1, 1, 0, 0], [0, 0, 1, 1]]
   \<and> list_all (\<lambda>w. 0 < w) [1/2, 1/2 :: real]
   \<and> sum_list [1/2, 1/2 :: real] = 1"
proof -
  have valid: "responsibility_columns_sum_to_one 4 [[1, 1, 0, 0], [0, 0, 1, 1]]"
    by (simp add: responsibility_columns_sum_to_one_def column_def upt_rec [of _ 4])
  have pre: "[1/4, 3/4 :: real] \<noteq> [] \<and> length [[1, 1, 0, 0], [0, 0, 1, 1 :: real]] = length [1/4, 3/4 :: real]
      \<and> responsibility_columns_sum_to_one (length [[0], [1], [4], [5 :: real]])
           [[1, 1, 0, 0], [0, 0, 1, 1]]"
    using valid by (simp add: eval_nat_numeral)
  have "list_all (\<lambda>w. 0 < w) [1/2, 1/2 :: real] \<and> sum_list [1/2, 1/2 :: real] = 1"
    using maximization_weights
      [where y = "[[0], [1], [4], [5]]" and mu = "[[0], [0]]" and cov = "[[[1]], [[1]]]"
         and weight = "[1/4, 3/4]" and responsibility = "[[1, 1, 0, 0], [0, 0, 1, 1]]"
         and parent = None and mu' = "[[1/2], [9/2]]" and cov' = "[[[1/2]], [[1/2]]]"
         and weight' = "[1/2, 1/2]"]
      ka_max_example pre
    by blast
  then show ?thesis
    using ka_max_example search_max_example valid by (intro conjI) simp_all
qed

subsection \<open>The responsibility matrix\<close>

lemma sum_list_pos_nonempty:
  fixes xs :: "real list"
  assumes "xs \<noteq> []" "\<forall>x\<in>set xs. 0 < x"
  shows "0 < sum_list xs"
proof -
  have nonneg: "\<forall>x\<in>set xs. 0 \<le> x" using assms(2) by (simp add: less_imp_le)
  have "hd xs \<in> set xs" using assms(1) by simp
  then have "hd xs \<le> sum_list xs" "0 < hd xs"
    using member_le_sum_list [OF nonneg] assms(2) by auto
  then show ?thesis by simp
qed

lemma normalize_columns:
  fixes C :: mat
  assumes ne: "C \<noteq> []" and rows: "\<forall>row\<in>set C. length row = N"
    and pos: "\<forall>row\<in>set C. \<forall>r\<in>set row. 0 < r"
  defines "R \<equiv> map (\<lambda>row. map (\<lambda>(r, s). r / s) (zip row (sum_axis0 N C))) C"
  shows "length R = length C"
    and "\<forall>row\<in>set R. length row = N"
    and "\<forall>row\<in>set R. \<forall>r\<in>set row. 0 \<le> r \<and> r \<le> 1"
    and "\<forall>i<N. sum_list (column R i) = 1"
proof -
  let ?s = "\<lambda>i. sum_list (column C i)"
  have tot: "sum_axis0 N C ! i = ?s i" if "i < N" for i
    using that by (simp add: sum_axis0_def)
  have lent: "length (sum_axis0 N C) = N" by (simp add: sum_axis0_def)
  have colpos: "\<forall>c\<in>set (column C i). 0 < c" if "i < N" for i
    using that rows pos by (auto simp: column_def)
  have spos: "0 < ?s i" if "i < N" for i
    using colpos [OF that] ne by (intro sum_list_pos_nonempty) (simp_all add: column_def)
  have entry: "map (\<lambda>(r, s). r / s) (zip row (sum_axis0 N C)) ! i = row ! i / ?s i"
    if "row \<in> set C" "i < N" for row i
    using that rows lent tot by simp
  show "length R = length C" by (simp add: R_def)
  show "\<forall>row\<in>set R. length row = N" using rows lent by (auto simp: R_def)
  show "\<forall>row\<in>set R. \<forall>r\<in>set row. 0 \<le> r \<and> r \<le> 1"
  proof (intro ballI)
    fix row r assume "row \<in> set R" "r \<in> set row"
    then obtain crow where crow: "crow \<in> set C"
      and r: "r \<in> set (map (\<lambda>(r, s). r / s) (zip crow (sum_axis0 N C)))"
      by (auto simp: R_def)
    have len: "length (map (\<lambda>(r, s). r / s) (zip crow (sum_axis0 N C))) = N"
      using rows crow lent by simp
    obtain i where i: "i < N" and ri: "r = crow ! i / ?s i"
      using r len entry [OF crow] by (metis in_set_conv_nth)
    have "crow ! i \<in> set (column C i)" using crow by (simp add: column_def)
    moreover have "\<forall>c\<in>set (column C i). 0 \<le> c" using colpos [OF i] by (simp add: less_imp_le)
    ultimately have "crow ! i \<le> ?s i" "0 < crow ! i"
      using member_le_sum_list colpos [OF i] by auto
    then show "0 \<le> r \<and> r \<le> 1" using spos [OF i] ri by simp
  qed
  show "\<forall>i<N. sum_list (column R i) = 1"
  proof (intro allI impI)
    fix i assume i: "i < N"
    have "column R i = map (\<lambda>row. row ! i / ?s i) C"
      using entry i by (simp add: column_def R_def)
    then have "sum_list (column R i) = (\<Sum>row\<leftarrow>C. row ! i / ?s i)" by simp
    also have "\<dots> = (\<Sum>row\<leftarrow>C. row ! i) / ?s i" by (rule sum_list_div)
    also have "\<dots> = ?s i / ?s i" by (simp add: column_def)
    also have "\<dots> = 1" using spos [OF i] by simp
    finally show "sum_list (column R i) = 1" .
  qed
qed

lemma clip_bounds: "lo \<le> hi \<Longrightarrow> lo \<le> clip lo hi x \<and> clip lo hi x \<le> hi"
  by (simp add: clip_def)

lemma eps_pos: "0 < eps"
  by (simp add: eps_def)

lemma ka_numerator_shape:
  "ka_numerator y zs = Inr num \<Longrightarrow> length num = length zs \<and> (\<forall>row\<in>set num. length row = length y)"
proof (induction zs arbitrary: num)
  case Nil
  then show ?case by simp
next
  case (Cons z zs)
  obtain m c w where z: "z = (m, c, w)" by (cases z) auto
  from Cons.prems z obtain Cinv rows where
    "ka_numerator y zs = Inr rows" "num = ka_numerator_row y m c w Cinv # rows"
    by (auto split: sum.splits)
  then show ?case using Cons.IH [of rows] by (simp add: ka_numerator_row_def Let_def)
qed

lemma ka_numerator_total:
  "\<forall>(m, c, w)\<in>set zs. det c \<noteq> 0 \<Longrightarrow> \<exists>num. ka_numerator y zs = Inr num"
proof (induction zs)
  case Nil
  then show ?case by simp
next
  case (Cons z zs)
  obtain m c w where z: "z = (m, c, w)" by (cases z) auto
  have "det c \<noteq> 0" using Cons.prems z by simp
  then obtain Cinv where "svd_inverse c = Inr Cinv" by (simp add: svd_inverse_def)
  moreover obtain rows where "ka_numerator y zs = Inr rows" using Cons by auto
  ultimately show ?case using z by simp
qed


lemma spd_det_pos:
  assumes "symmetric_positive_definite C"
  shows "0 < det C"
proof (cases "C = []")
  case True
  then show ?thesis by simp
next
  case False
  have sq: "\<forall>row\<in>set C. length row = length C"
    using assms by (simp add: symmetric_positive_definite_def list_all_iff)
  have "length C \<in> set [1..<Suc (length C)]" using False by (cases C) auto
  then have "0 < det (map (take (length C)) (take (length C) C))"
    using assms unfolding symmetric_positive_definite_def list_all_iff by blast
  moreover have "map (take (length C)) C = C"
    using sq by (intro map_idI) simp
  ultimately show ?thesis by simp
qed

lemma is_responsibility_matrixI:
  assumes "length R = K" "\<forall>row\<in>set R. length row = N"
    "\<forall>row\<in>set R. \<forall>r\<in>set row. 0 \<le> r \<and> r \<le> 1"
    "\<forall>i<N. sum_list (column R i) = 1"
  shows "is_responsibility_matrix K N R"
  using assms by (simp add: is_responsibility_matrix_def list_all_iff)

lemma ka_responsibility_ok:
  assumes ne: "mu \<noteq> []" and lc: "length cov = length mu" and lw: "length weight = length mu"
    and dets: "\<forall>c\<in>set cov. 0 < det c"
  shows "\<exists>R num den. ka_responsibility_matrix y mu cov weight = Inr (R, num, den)
           \<and> is_responsibility_matrix (length mu) (length y) R"
proof -
  let ?zs = "zip mu (zip cov weight)"
  let ?N = "length y"
  have "\<forall>(m, c, w)\<in>set ?zs. det c \<noteq> 0"
  proof (clarify)
    fix m c w assume mem: "(m, c, w) \<in> set ?zs" and zero: "det c = 0"
    from mem have "(c, w) \<in> set (zip cov weight)" by (rule set_zip_rightD)
    then have "c \<in> set cov" by (rule set_zip_leftD)
    then show False using dets zero by auto
  qed
  then obtain num where num: "ka_numerator y ?zs = Inr num"
    using ka_numerator_total by blast
  have shape: "length num = length mu" "\<forall>row\<in>set num. length row = ?N"
    using ka_numerator_shape [OF num] lc lw by simp_all
  have noneg: "\<not> list_ex (\<lambda>(cov_k, weight_k). det cov_k < 0) (zip cov weight)"
    using dets by (auto simp: list_ex_iff dest!: set_zip_leftD)
  define den where "den = map (clip eps (10 * 10 ^ 8)) (sum_axis0 ?N num)"
  define C where "C = map (\<lambda>row. map (\<lambda>(n, d). clip eps 1 (n / d)) (zip row den)) num"
  define R where "R = map (\<lambda>row. map (\<lambda>(r, s). r / s) (zip row (sum_axis0 ?N C))) C"
  have res: "ka_responsibility_matrix y mu cov weight = Inr (R, num, den)"
    using num noneg by (simp add: ka_responsibility_matrix_def Let_def R_def C_def den_def)
  have lden: "length den = ?N" by (simp add: den_def sum_axis0_def)
  have Cne: "C \<noteq> []" using shape(1) ne by (auto simp: C_def)
  have Crows: "\<forall>row\<in>set C. length row = ?N" using shape(2) lden by (auto simp: C_def)
  have Cpos: "\<forall>row\<in>set C. \<forall>r\<in>set row. 0 < r"
  proof (intro ballI)
    fix row r assume "row \<in> set C" "r \<in> set row"
    then obtain x where "r = clip eps 1 x" by (auto simp: C_def)
    moreover have "eps \<le> clip eps 1 x" using clip_bounds [of eps 1 x] by (simp add: eps_def)
    ultimately show "0 < r" using eps_pos by simp
  qed
  have "is_responsibility_matrix (length mu) ?N R"
    using normalize_columns [OF Cne Crows Cpos] shape(1) unfolding R_def
    by (intro is_responsibility_matrixI) (simp_all add: C_def)
  then show ?thesis using res by blast
qed


lemma those_length: "those xs = Some ys \<Longrightarrow> length ys = length xs"
  by (induction xs arbitrary: ys) (auto split: option.splits)

lemma precision_full_length: "precision_full cs = Inr ps \<Longrightarrow> length ps = length cs"
  by (induction cs arbitrary: ps) (auto split: option.splits sum.splits)

lemma compute_precision_length:
  assumes "compute_precision_cholesky cov ctype = Inr p"
  shows "length p = length cov"
proof -
  consider (full) "ctype = ''full''" | (diag) "ctype = ''diag''" "ctype \<noteq> ''full''"
    | (other) "ctype \<noteq> ''full''" "ctype \<noteq> ''diag''"
    by blast
  then show ?thesis
  proof cases
    case full
    then obtain cs where "fulls cov = Some cs" "precision_full cs = Inr p"
      using assms by (auto simp: compute_precision_cholesky_def split: option.splits)
    then show ?thesis
      using those_length [of _ cs] precision_full_length [of cs p] by (simp add: fulls_def)
  next
    case diag
    then obtain vs where "diags cov = Some vs" "length p = length vs"
      using assms by (auto simp: compute_precision_cholesky_def split: option.splits if_splits)
    then show ?thesis using those_length [of _ vs] by (simp add: diags_def)
  next
    case other
    then show ?thesis using assms by (simp add: compute_precision_cholesky_def split: if_splits)
  qed
qed

lemma sum_list_exp_pos:
  fixes a :: "real list"
  assumes "a \<noteq> []"
  shows "0 < (\<Sum>v\<leftarrow>a. exp v)"
  using assms by (intro sum_list_pos_nonempty) auto

lemma softmax_entry:
  fixes a :: "real list"
  assumes "a \<noteq> []"
  shows "exp (v - logsumexp a) = exp v / (\<Sum>u\<leftarrow>a. exp u)"
  using sum_list_exp_pos [OF assms] by (simp add: logsumexp_def exp_diff)

lemma sum_list_map_nth:
  "(\<Sum>k\<leftarrow>[0..<length a]. f (a ! k)) = (\<Sum>v\<leftarrow>a. f v :: real)"
proof -
  have "map (\<lambda>k. f (a ! k)) [0..<length a] = map f (map ((!) a) [0..<length a])" by simp
  then show ?thesis by (simp only: map_nth)
qed

lemma search_responsibility_ok:
  assumes ne: "mu \<noteq> []" and lc: "length cov = length mu" and lw: "length weight = length mu"
    and wpos: "\<forall>w\<in>set weight. 0 < w"
    and chol: "compute_precision_cholesky cov ctype = Inr p"
  shows "\<exists>R ll. search_responsibility_matrix y mu cov weight ctype False = Inr (R, ll)
           \<and> is_responsibility_matrix (length mu) (length y) R"
proof -
  let ?K = "length mu" and ?N = "length y"
  define f where "f = weighted_log_prob (ncols y) mu p weight"
  define R where "R = map (\<lambda>k. map (\<lambda>(row, ll). exp (row ! k - ll))
                                   (zip (map f y) (map logsumexp (map f y)))) [0..<?K]"
  have nex: "\<not> list_ex (\<lambda>w. w \<le> 0) weight"
    using wpos by (auto simp: list_ex_iff)
  have res: "search_responsibility_matrix y mu cov weight ctype False
               = Inr (R, map logsumexp (map f y))"
    using chol ne nex by (simp add: search_responsibility_matrix_def Let_def R_def f_def)
  have lenf: "length (f x) = ?K" for x
    using compute_precision_length [OF chol] lc lw by (simp add: f_def weighted_log_prob_def)
  have fne: "f x \<noteq> []" for x using lenf [of x] ne by auto
  have row: "map (\<lambda>(row, ll). exp (row ! k - ll)) (zip (map f y) (map logsumexp (map f y)))
               = map (\<lambda>x. exp (f x ! k) / (\<Sum>u\<leftarrow>f x. exp u)) y" for k
    using softmax_entry [OF fne] by (simp add: zip_map_map zip_same_conv_map)
  have Rk: "R = map (\<lambda>k. map (\<lambda>x. exp (f x ! k) / (\<Sum>u\<leftarrow>f x. exp u)) y) [0..<?K]"
    unfolding R_def using row by simp
  have "length R = ?K" by (simp add: Rk)
  moreover have "\<forall>row\<in>set R. length row = ?N" by (auto simp: Rk)
  moreover have "\<forall>row\<in>set R. \<forall>r\<in>set row. 0 \<le> r \<and> r \<le> 1"
  proof (intro ballI)
    fix row r assume "row \<in> set R" "r \<in> set row"
    then obtain k x where k: "k < ?K" and r: "r = exp (f x ! k) / (\<Sum>u\<leftarrow>f x. exp u)"
      by (auto simp: Rk)
    have "exp (f x ! k) \<in> set (map exp (f x))" using k lenf [of x] by simp
    moreover have "\<forall>e\<in>set (map exp (f x)). 0 \<le> e" by auto
    ultimately have "exp (f x ! k) \<le> (\<Sum>u\<leftarrow>f x. exp u)"
      using member_le_sum_list by blast
    then show "0 \<le> r \<and> r \<le> 1" using sum_list_exp_pos [OF fne [of x]] r by simp
  qed
  moreover have "\<forall>i<?N. sum_list (column R i) = 1"
  proof (intro allI impI)
    fix i assume i: "i < ?N"
    let ?a = "f (y ! i)"
    have "column R i = map (\<lambda>k. exp (?a ! k) / (\<Sum>u\<leftarrow>?a. exp u)) [0..<?K]"
      using i by (simp add: column_def Rk)
    then have "sum_list (column R i) = (\<Sum>k\<leftarrow>[0..<?K]. exp (?a ! k) / (\<Sum>u\<leftarrow>?a. exp u))"
      by simp
    also have "\<dots> = (\<Sum>k\<leftarrow>[0..<?K]. exp (?a ! k)) / (\<Sum>u\<leftarrow>?a. exp u)"
      by (rule sum_list_div)
    also have "(\<Sum>k\<leftarrow>[0..<?K]. exp (?a ! k)) = (\<Sum>u\<leftarrow>?a. exp u)"
      using sum_list_map_nth [of exp ?a] lenf [of "y ! i"] by simp
    also have "(\<Sum>u\<leftarrow>?a. exp u) / (\<Sum>u\<leftarrow>?a. exp u) = 1"
      using sum_list_exp_pos [OF fne [of "y ! i"]] by simp
    finally show "sum_list (column R i) = 1" .
  qed
  ultimately have "is_responsibility_matrix ?K ?N R" by (rule is_responsibility_matrixI)
  then show ?thesis using res by blast
qed


text \<open>
  C1. For a mixture of at least one component with positive weights, the responsibility
  matrix is returned and has every entry in \<open>[0, 1]\<close> and every column summing to one
  (within \<open>10\<^sup>-\<^sup>8\<close>; over the real numbers, exactly): in \<^verbatim>\<open>mixture_ka\<close> for
  symmetric positive-definite covariances, by the clip to \<open>[eps, 1]\<close> and the division of
  every column by its sum; in \<^verbatim>\<open>mixture_search\<close> for covariances that
  \<^verbatim>\<open>_compute_precision_cholesky\<close> factorizes, by the subtraction of the
  log-sum-exp of every observation.
\<close>

theorem responsibility_matrix_normalized:
  assumes "mu \<noteq> []" "length weight = length mu" "list_all (\<lambda>w. 0 < w) weight"
  shows "(length cov = length mu \<and> list_all symmetric_positive_definite cov \<longrightarrow>
            (\<exists>R num den. ka_responsibility_matrix y mu cov weight = Inr (R, num, den)
               \<and> is_responsibility_matrix (length mu) (length y) R))
       \<and> (length cov_s = length mu \<and> (\<exists>p. compute_precision_cholesky cov_s ctype = Inr p) \<longrightarrow>
            (\<exists>R ll. search_responsibility_matrix y mu cov_s weight ctype False = Inr (R, ll)
               \<and> is_responsibility_matrix (length mu) (length y) R))"
proof (intro conjI impI)
  assume a: "length cov = length mu \<and> list_all symmetric_positive_definite cov"
  then have "\<forall>c\<in>set cov. 0 < det c"
    using spd_det_pos by (auto simp: list_all_iff)
  with a assms(1,2)
  show "\<exists>R num den. ka_responsibility_matrix y mu cov weight = Inr (R, num, den)
          \<and> is_responsibility_matrix (length mu) (length y) R"
    by (intro ka_responsibility_ok) simp_all
next
  assume a: "length cov_s = length mu \<and> (\<exists>p. compute_precision_cholesky cov_s ctype = Inr p)"
  then obtain p where p: "compute_precision_cholesky cov_s ctype = Inr p" by blast
  have "\<forall>w\<in>set weight. 0 < w" using assms(3) by (simp add: list_all_iff)
  with a assms(1,2) p
  show "\<exists>R ll. search_responsibility_matrix y mu cov_s weight ctype False = Inr (R, ll)
          \<and> is_responsibility_matrix (length mu) (length y) R"
    by (intro search_responsibility_ok [where p = p]) simp_all
qed

text \<open>Two components on the line, of variances \<open>1\<close> and \<open>4\<close>, and two observations.\<close>

lemma spd_example: "list_all symmetric_positive_definite [[[1]], [[4]]]"
  by (simp add: symmetric_positive_definite_def)

lemma cholesky_example:
  "compute_precision_cholesky [Full [[1]], Full [[4]]] ''full'' = Inr [Full [[1]], Full [[1/2]]]"
  by (simp add: compute_precision_cholesky_def fulls_def cholesky_def vdot_def vmul_def
      solve_triangular_eye_def minor_def np_delete_def mat_T_def ncols_def column_def)

theorem responsibility_matrix_normalized_witness:
  "(\<exists>R num den. ka_responsibility_matrix [[0], [3]] [[0], [1]] [[[1]], [[4]]] [1/4, 3/4]
                    = Inr (R, num, den)
       \<and> is_responsibility_matrix 2 2 R)
   \<and> (\<exists>R ll. search_responsibility_matrix [[0], [3]] [[0], [1]] [Full [[1]], Full [[4]]]
                  [1/4, 3/4] ''full'' False = Inr (R, ll)
       \<and> is_responsibility_matrix 2 2 R)"
proof -
  have a: "[[0], [1 :: real]] \<noteq> []" by simp
  have b: "length [1/4, 3/4 :: real] = length [[0], [1 :: real]]" by simp
  have c: "list_all (\<lambda>w. 0 < w) [1/4, 3/4 :: real]" by simp
  have d: "length [[[1]], [[4 :: real]]] = length [[0], [1 :: real]]
           \<and> list_all symmetric_positive_definite [[[1]], [[4]]]"
    using spd_example by simp
  have e: "length [Full [[1]], Full [[4]]] = length [[0], [1 :: real]]
           \<and> (\<exists>p. compute_precision_cholesky [Full [[1]], Full [[4]]] ''full'' = Inr p)"
    using cholesky_example by simp
  note inst = responsibility_matrix_normalized [OF a b c,
      where y = "[[0], [3]]" and cov = "[[[1]], [[4]]]"
        and cov_s = "[Full [[1]], Full [[4]]]" and ctype = "''full''"]
  show ?thesis
    using inst d e by (simp add: numeral_2_eq_2)
qed

subsection \<open>The Kullback-Leibler distance\<close>

lemma det_one_by_one: "det [[x]] = x"
  by simp

lemma svd_inverse_one_by_one: "x \<noteq> 0 \<Longrightarrow> svd_inverse [[x]] = Inr [[1 / x]]"
  by (simp add: svd_inverse_def minor_def np_delete_def)

lemma kl_one_dimension:
  assumes "0 < a" "0 < b"
  shows "kullback_leibler_for_multivariate_normals [m] [[a]] [n] [[b]]
         = Inr (1 / 2 * (b / a + (n - m) * ((n - m) / b) - 1 + ln (b / a)))"
  using assms
  by (simp add: kullback_leibler_for_multivariate_normals_def svd_inverse_one_by_one
      trace_def mat_mul_def mat_vec_def vdot_def vmul_def vsub_def column_def ncols_def Let_def
      not_le)

text \<open>
  C4. The docstring of \<^verbatim>\<open>kullback_leibler_for_multivariate_normals\<close> gives the distance
  from \<open>a\<close> to \<open>b\<close> with the trace of \<open>\<Sigma>\<^sub>b\<^sup>-\<^sup>1 \<Sigma>\<^sub>a\<close>; the code takes
  \<^verbatim>\<open>np.trace(np.dot(Ca_inv, cov_b))\<close>, the trace of \<open>\<Sigma>\<^sub>a\<^sup>-\<^sup>1 \<Sigma>\<^sub>b\<close>. From the
  normal distribution of mean \<open>0\<close> and variance \<open>2\<close> to the one of mean \<open>0\<close> and variance
  \<open>1\<close>, both modules return \<open>-1/4 - ln 2 / 2\<close>, a negative number, where the distance
  of the docstring is \<open>1/2 - ln 2 / 2 > 0\<close>.
\<close>

theorem kullback_leibler_negative:
  "kullback_leibler_for_multivariate_normals [0] [[2]] [0] [[1]] = Inr (- 1 / 4 - ln 2 / 2)
   \<and> search_kullback_leibler_for_multivariate_normals [0] (Full [[2]]) [0] (Full [[1]])
       = Inr (- 1 / 4 - ln 2 / 2)
   \<and> search_kullback_leibler_for_multivariate_normals [0] (Diag [2]) [0] (Diag [1])
       = Inr (- 1 / 4 - ln 2 / 2)
   \<and> - 1 / 4 - ln 2 / 2 < (0 :: real)"
proof -
  have "kullback_leibler_for_multivariate_normals [0] [[2]] [0] [[1]]
        = Inr (1 / 2 * (1 / 2 + (0 - 0) * ((0 - 0) / 1) - 1 + ln (1 / 2)))"
    by (rule kl_one_dimension) simp_all
  also have "1 / 2 * (1 / 2 + (0 - 0) * ((0 - 0) / 1) - 1 + ln (1 / 2)) = - 1 / 4 - ln 2 / (2::real)"
    by (simp add: ln_div)
  finally have a: "kullback_leibler_for_multivariate_normals [0] [[2]] [0] [[1]]
        = Inr (- 1 / 4 - ln 2 / 2)" .
  have "(0::real) < ln 2" by simp
  then have b: "- 1 / 4 - ln 2 / 2 < (0 :: real)" by linarith
  have c: "search_kullback_leibler_for_multivariate_normals [0] (Full [[2]]) [0] (Full [[1]])
       = Inr (- 1 / 4 - ln 2 / 2)"
    using a by (simp add: search_kullback_leibler_for_multivariate_normals_def as_matrix_def)
  have d: "search_kullback_leibler_for_multivariate_normals [0] (Diag [2]) [0] (Diag [1])
       = Inr (- 1 / 4 - ln 2 / 2)"
    using a by (simp add: search_kullback_leibler_for_multivariate_normals_def as_matrix_def
        eye_def vmul_def)
  show ?thesis
    using a b c d by (intro conjI)
qed

subsection \<open>The seed of a split\<close>

text \<open>
  In \<^verbatim>\<open>mixture_search\<close> the seed is a hard assignment: every observation has
  responsibility one for the child whose mean is nearer (the first child on a tie) and zero
  for the other.
\<close>

lemma search_seed_hard:
  assumes "i < length y"
  shows "search_child_responsibility y child_mu ! 0 ! i
           = (if squared_distance (y ! i) (child_mu ! 1) < squared_distance (y ! i) (child_mu ! 0)
              then 0 else 1)
       \<and> search_child_responsibility y child_mu ! 1 ! i
           = (if squared_distance (y ! i) (child_mu ! 1) < squared_distance (y ! i) (child_mu ! 0)
              then 1 else 0)"
  using assms by (simp add: search_child_responsibility_def Let_def)

text \<open>
  C6. In \<^verbatim>\<open>mixture_ka\<close> the comment says "Responsibilities are initialized by allocating
  the data points to the closest of the two means", but the seed of a child is the
  observation's distance to that child over the sum of its distances to both. Splitting the
  component of mean \<open>0\<close> and variance \<open>1\<close> on the line (numpy's decomposition of
  \<open>[[1]]\<close> is \<open>U = [[1]], S = [1], V = [[1]]\<close>) puts the children at \<open>1\<close> and \<open>-1\<close>; the
  observation \<open>1\<close>, which lies on the first child, gets responsibility \<open>0\<close> for it and \<open>1\<close>
  for the second, and the observation \<open>1/2\<close> gets \<open>1/4\<close> and \<open>3/4\<close>.
  \<^verbatim>\<open>mixture_search\<close> puts the children at \<open>-1\<close> and \<open>1\<close> and gives each of the three
  observations to the nearer one.
\<close>

theorem ka_split_seed_not_hard:
  "ka_child_mu (\<lambda>C. ([[1]], [1], [[1]])) [0] [[1]] = Inr [[1], [- 1]]
   \<and> ka_child_responsibility [[1], [1 / 2], [- 1]] [[1], [- 1]]
       = Inr [[0, 1 / 4, 1], [1, 3 / 4, 0]]
   \<and> search_child_mu [0] [1] [[1]] = [[- 1], [1]]
   \<and> search_child_responsibility [[1], [1 / 2], [- 1]] [[- 1], [1]] = [[0, 0, 1], [1, 1, 0]]"
  by (simp add: ka_child_mu_def diagonal_def vadd_def vmul_def ka_child_responsibility_def
      abs_distance_def vsub_def search_child_mu_def search_child_responsibility_def
      squared_distance_def Let_def power2_eq_square)

subsection \<open>The tied covariance structures\<close>

lemma normal_tied: "lower (strip ''tied'') = ''tied''"
  by (simp add: lower_def strip_def is_space_def lower_char_def)

lemma normal_tied_diag: "lower (strip ''tied_diag'') = ''tied_diag''"
  by (simp add: lower_def strip_def is_space_def lower_char_def)

text \<open>
  Construction with a tied structure does not always succeed: \<^verbatim>\<open>mixture_ka\<close> refuses
  \<^verbatim>\<open>"tied_diag"\<close> with \<^verbatim>\<open>NotImplementedError\<close> in \<^verbatim>\<open>__init__\<close>, and
  \<^verbatim>\<open>mixture_search\<close> refuses \<^verbatim>\<open>"tied"\<close> with \<^verbatim>\<open>ValueError\<close>.
\<close>

theorem tied_construction_fails:
  "ka_init \<lparr>ka_y = None, ka_covariance_type = None\<rparr> [[0]] ''tied_diag''
     = (Some NotImplementedError, \<lparr>ka_y = None, ka_covariance_type = None\<rparr>)
   \<and> search_init \<lparr>s_threshold = None, s_max_em_iterations = None, s_covariance_type = None,
                   s_covariance_regularization = None\<rparr> ''tied'' 0 (1 / 10 ^ 5) 10000
     = (Some ValueError,
        \<lparr>s_threshold = None, s_max_em_iterations = None, s_covariance_type = None,
         s_covariance_regularization = None\<rparr>)"
  by (simp add: ka_init_def search_init_def normal_tied normal_tied_diag Let_def)

text \<open>
  C9, as the code has it. \<^verbatim>\<open>mixture_ka.GaussianMixture\<close> accepts \<^verbatim>\<open>"tied"\<close> (and
  \<^verbatim>\<open>_parameters_per_component\<close> then counts \<open>D\<close> parameters for it, raising nothing)
  and refuses \<^verbatim>\<open>"tied_diag"\<close> at construction with \<^verbatim>\<open>NotImplementedError\<close>;
  \<^verbatim>\<open>mixture_search.GaussianMixture\<close> refuses both at construction with
  \<^verbatim>\<open>ValueError\<close>. Every refusal comes before the first assignment to an attribute: the
  object is returned as it was. Called directly with either string,
  \<^verbatim>\<open>_compute_precision_cholesky\<close> and so \<^verbatim>\<open>responsibility_matrix\<close> of
  \<^verbatim>\<open>mixture_search\<close> raise \<^verbatim>\<open>NotImplementedError\<close> before computing anything.
\<close>

theorem tied_covariance_types:
  "ka_init self y ''tied'' = (None, self\<lparr>ka_y := Some y, ka_covariance_type := Some ''tied''\<rparr>)
   \<and> parameters_per_component D ''tied'' = Inr D
   \<and> ka_init self y ''tied_diag'' = (Some NotImplementedError, self)
   \<and> search_init self_s ''tied'' reg th mx = (Some ValueError, self_s)
   \<and> search_init self_s ''tied_diag'' reg th mx = (Some ValueError, self_s)
   \<and> compute_precision_cholesky cov ''tied'' = Inl NotImplementedError
   \<and> compute_precision_cholesky cov ''tied_diag'' = Inl NotImplementedError
   \<and> search_responsibility_matrix y mu cov weight ''tied'' dofail = Inl NotImplementedError
   \<and> search_responsibility_matrix y mu cov weight ''tied_diag'' dofail = Inl NotImplementedError"
  by (simp add: ka_init_def search_init_def normal_tied normal_tied_diag Let_def
      parameters_per_component_def compute_precision_cholesky_def is_in_def
      search_responsibility_matrix_def)

subsection \<open>The sign of the message length\<close>

lemma sqrt_two_pi_bounds: "1 < sqrt (2 * pi)" "sqrt (2 * pi) < 10"
proof -
  have "sqrt 1 < sqrt (2 * pi)" using pi_ge_two by (subst real_sqrt_less_iff) linarith
  then show "1 < sqrt (2 * pi)" by simp
  have "sqrt (2 * pi) < sqrt 100" using pi_less_4 by (subst real_sqrt_less_iff) linarith
  moreover have "sqrt 100 = (10::real)" using real_sqrt_abs [of 10] by simp
  ultimately show "sqrt (2 * pi) < 10" by simp
qed

lemma ka_density_value:
  "(2 * pi) powr - (1 / 2) * (1 / 100) powr - (1 / 2) = 10 / sqrt (2 * pi)"
proof -
  have "sqrt 100 = (10::real)" using real_sqrt_abs [of 10] by simp
  then have "(1 / 100 :: real) powr - (1 / 2) = 10"
    by (simp add: powr_minus powr_half_sqrt real_sqrt_divide)
  moreover have "(2 * pi) powr - (1 / 2) = 1 / sqrt (2 * pi)"
    by (simp add: powr_minus powr_half_sqrt inverse_eq_divide)
  ultimately show ?thesis by simp
qed

lemma ka_density_bounds:
  "1 < 10 / sqrt (2 * pi)" "10 / sqrt (2 * pi) < 10"
  using sqrt_two_pi_bounds by (simp_all add: field_simps)

lemma ka_density_clip:
  "clip eps (10 * 10 ^ 8) (10 / sqrt (2 * pi)) = 10 / sqrt (2 * pi)"
proof -
  have "eps \<le> 1" by (simp add: eps_def)
  then have "\<not> 10 / sqrt (2 * pi) < eps" using ka_density_bounds(1) by linarith
  moreover have "\<not> 10 * 10 ^ 8 < 10 / sqrt (2 * pi)" using ka_density_bounds(2) by simp
  ultimately show ?thesis by (simp add: clip_def)
qed

lemma ka_responsibility_example:
  "ka_responsibility_matrix [[0]] [[0]] [[[1 / 100]]] [1]
   = Inr ([[1]], [[10 / sqrt (2 * pi)]], [10 / sqrt (2 * pi)])"
proof -
  have nz: "10 / sqrt (2 * pi) \<noteq> 0" using ka_density_bounds(1) by simp
  have "eps \<le> 1" by (simp add: eps_def)
  then have one: "clip eps 1 1 = 1" by (simp add: clip_def)
  show ?thesis
    using nz one ka_density_clip
    by (simp add: ka_responsibility_matrix_def svd_inverse_one_by_one ka_numerator_row_def
        ncols_def vsub_def vdot_def vmul_def mat_vec_def sum_axis0_def column_def Let_def
        ka_density_value)
qed

text \<open>
  The score of \<^verbatim>\<open>mixture_ka._expectation\<close> is not always positive. One observation
  \<open>0\<close> on the line and one component of mean \<open>0\<close>, variance \<open>1/100\<close> and weight \<open>1\<close>,
  with the two parameters of a free covariance in one dimension: the density at the
  observation is \<open>10 / \<surd>(2\<pi>) > 1\<close>, the log-likelihood is its logarithm, and the
  message length returned is minus that, a negative number. Nothing is raised.
\<close>

lemma ka_expectation_negative:
  "ka_expectation [[0]] [[0]] [[[1 / 100]]] [1] 2
     = Inr ([[1]], ln (10 / sqrt (2 * pi)), - ln (10 / sqrt (2 * pi)))
   \<and> - ln (10 / sqrt (2 * pi)) < 0"
proof -
  have "0 < ln (10 / sqrt (2 * pi))" using ka_density_bounds(1) by simp
  then show ?thesis
    by (simp add: ka_expectation_def ka_responsibility_example Let_def)
qed

lemma total_length_nll:
  "total_length 2 2 [1] [1] [[1, 1]] nll
     = Fin ((ln 5 - 4 * ln pi + 2 * nll + 8 * ln 1000) / (2 * ln 2))"
proof -
  have "ln (2::real) \<noteq> 0" by simp
  then show ?thesis
    by (simp add: total_length_def I_w_def log_kappa_def gammaln_def ext_log_def ext_sum_def
        sum_axis1_def Let_def ln_mult ln_div field_simps)
qed

lemma total_length_example_pos: "0 < (ln 5 - 4 * ln pi + 2 * 4 + 8 * ln 1000) / (2 * ln (2::real))"
proof -
  have "ln pi < ln (1000::real)" using pi_less_4 pi_gt_zero by (subst ln_less_cancel_iff) simp_all
  moreover have "0 < ln (5::real)" "0 < ln (1000::real)" by simp_all
  ultimately have "0 < ln 5 - 4 * ln pi + 2 * 4 + 8 * ln (1000::real)" by linarith
  moreover have "0 < 2 * ln (2::real)" by simp
  ultimately show ?thesis by (rule divide_pos_pos)
qed

lemma total_length_example_neg:
  "\<not> 0 < (ln 5 - 4 * ln pi + 2 * (- 10000) + 8 * ln 1000) / (2 * ln (2::real))"
proof -
  have "ln (5::real) < 5" "ln (1000::real) < 1000" by (simp_all add: ln_less_self)
  moreover have "0 < ln pi" using pi_ge_two by (subst ln_gt_zero_iff) simp_all
  ultimately have "ln 5 - 4 * ln pi + 2 * (- 10000) + 8 * ln (1000::real) < 0" by linarith
  moreover have "0 < 2 * ln (2::real)" by simp
  ultimately have "(ln 5 - 4 * ln pi + 2 * (- 10000) + 8 * ln (1000::real)) / (2 * ln 2) < 0"
    by (rule divide_neg_pos)
  then show ?thesis by simp
qed

lemma det_eye2: "det [[1, 0], [0, 1]] = 1"
  by (simp add: np_delete_def upt_rec [of 0 2] upt_rec [of 1 2])

lemma det_ones2: "det [[1, 1], [1, 1]] = 0"
  by (simp add: np_delete_def upt_rec [of 0 2] upt_rec [of 1 2])

lemma I_w_example: "I_w 2 [1] = Fin 0"
  by (simp add: I_w_def gammaln_def ext_log_def ext_sum_def)

lemma message_length_returns:
  assumes "ncols y \<noteq> 1" "cov_matrices (ncols y) cov ctype = Some cov_m"
    "length cov_m = length responsibility"
    "parameters_per_mixture (ncols y) ctype = Inr N_cp"
    "map det cov_m = dets" "length y = N" "ncols y = D"
    "ext_ge (I_w N weight) (- 1 / 2)"
  shows "message_length y mu cov weight responsibility nll ctype False
         = (if ext_gt (total_length N D dets weight responsibility nll) 0
            then Inr (total_length N D dets weight responsibility nll)
            else Inl AssertionError)"
  using assms by (simp add: message_length_def Let_def)

lemma example_facts:
  "ncols [[0, 0], [1, 1 :: real]] = 2"
  "length [[0, 0], [1, 1 :: real]] = 2"
  "parameters_per_mixture 2 ''full'' = Inr 5"
  "cov_matrices 2 [Full [[1, 0], [0, 1]]] ''full'' = Some [[[1, 0], [0, 1]]]"
  "cov_matrices 2 [Full [[1, 1], [1, 1]]] ''full'' = Some [[[1, 1], [1, 1]]]"
  "map det [[[1, 0], [0, 1]]] = [1]"
  "map det [[[1, 1], [1, 1]]] = [0]"
  by (simp_all add: ncols_def parameters_per_mixture_def cov_matrices_def fulls_def
      np_delete_def)

lemma message_length_example:
  "message_length [[0, 0], [1, 1]] [[1 / 2, 1 / 2]] [Full [[1, 0], [0, 1]]] [1] [[1, 1]] nll
     ''full'' False
   = (if 0 < (ln 5 - 4 * ln pi + 2 * nll + 8 * ln 1000) / (2 * ln 2)
      then Inr (Fin ((ln 5 - 4 * ln pi + 2 * nll + 8 * ln 1000) / (2 * ln 2)))
      else Inl AssertionError)"
proof -
  have "message_length [[0, 0], [1, 1]] [[1 / 2, 1 / 2]] [Full [[1, 0], [0, 1]]] [1] [[1, 1]]
          nll ''full'' False
        = (if ext_gt (total_length 2 2 [1] [1] [[1, 1]] nll) 0
           then Inr (total_length 2 2 [1] [1] [[1, 1]] nll)
           else Inl AssertionError)"
  proof (rule message_length_returns)
    show "ncols [[0, 0], [1, 1 :: real]] \<noteq> 1" by (simp add: example_facts)
    show "cov_matrices (ncols [[0, 0], [1, 1 :: real]]) [Full [[1, 0], [0, 1]]] ''full''
          = Some [[[1, 0], [0, 1]]]"
      by (simp only: example_facts)
    show "length [[[1, 0], [0, 1 :: real]]] = length [[1, 1 :: real]]" by simp
    show "parameters_per_mixture (ncols [[0, 0], [1, 1 :: real]]) ''full'' = Inr 5"
      by (simp only: example_facts)
    show "map det [[[1, 0], [0, 1]]] = [1]" by (rule example_facts)
    show "length [[0, 0], [1, 1 :: real]] = 2" by simp
    show "ncols [[0, 0], [1, 1 :: real]] = 2" by (rule example_facts)
    show "ext_ge (I_w 2 [1]) (- 1 / 2)" by (simp add: I_w_example)
  qed
  then show ?thesis by (simp add: total_length_nll)
qed

text \<open>
  The same data with the singular covariance whose four entries are \<open>1\<close>: the
  determinant is \<open>0\<close>, its logarithm \<open>-inf\<close>, the total \<open>inf\<close>, and the call returns it.
\<close>

lemma total_length_singular: "total_length 2 2 [0] [1] [[1, 1]] nll = PInf"
  by (simp add: total_length_def I_w_def log_kappa_def gammaln_def ext_log_def ext_sum_def
      sum_axis1_def Let_def)

lemma message_length_singular:
  "message_length [[0, 0], [1, 1]] [[1 / 2, 1 / 2]] [Full [[1, 1], [1, 1]]] [1] [[1, 1]] nll
     ''full'' False = Inr PInf"
proof -
  have "message_length [[0, 0], [1, 1]] [[1 / 2, 1 / 2]] [Full [[1, 1], [1, 1]]] [1] [[1, 1]]
          nll ''full'' False
        = (if ext_gt (total_length 2 2 [0] [1] [[1, 1]] nll) 0
           then Inr (total_length 2 2 [0] [1] [[1, 1]] nll)
           else Inl AssertionError)"
  proof (rule message_length_returns)
    show "ncols [[0, 0], [1, 1 :: real]] \<noteq> 1" by (simp add: example_facts)
    show "cov_matrices (ncols [[0, 0], [1, 1 :: real]]) [Full [[1, 1], [1, 1]]] ''full''
          = Some [[[1, 1], [1, 1]]]"
      by (simp only: example_facts)
    show "length [[[1, 1], [1, 1 :: real]]] = length [[1, 1 :: real]]" by simp
    show "parameters_per_mixture (ncols [[0, 0], [1, 1 :: real]]) ''full'' = Inr 5"
      by (simp only: example_facts)
    show "map det [[[1, 1], [1, 1]]] = [0]" by (rule example_facts)
    show "length [[0, 0], [1, 1 :: real]] = 2" by simp
    show "ncols [[0, 0], [1, 1 :: real]] = 2" by (rule example_facts)
    show "ext_ge (I_w 2 [1]) (- 1 / 2)" by (simp add: I_w_example)
  qed
  then show ?thesis by (simp add: total_length_singular)
qed

text \<open>
  C8, against the claim. \<^verbatim>\<open>mixture_ka._expectation\<close> returns a negative score, and
  \<^verbatim>\<open>mixture_search._message_length\<close> returns a total that is not finite: neither call
  raises.
\<close>

theorem score_negative_or_infinite:
  "ka_expectation [[0]] [[0]] [[[1 / 100]]] [1] 2
     = Inr ([[1]], ln (10 / sqrt (2 * pi)), - ln (10 / sqrt (2 * pi)))
   \<and> - ln (10 / sqrt (2 * pi)) < 0
   \<and> message_length [[0, 0], [1, 1]] [[1 / 2, 1 / 2]] [Full [[1, 1], [1, 1]]] [1] [[1, 1]] 4
       ''full'' False = Inr PInf"
  using ka_expectation_negative message_length_singular [of 4] by simp

text \<open>
  C8, as the code has it. \<^verbatim>\<open>mixture_search._message_length\<close> returns nothing but a
  strictly positive total, which may be \<open>inf\<close>: whenever the total \<open>I\<close> it has computed
  is not strictly positive (a number at most zero, \<open>-inf\<close> or \<open>nan\<close>), the call raises
  \<^verbatim>\<open>AssertionError\<close> (\<^verbatim>\<open>assert I > 0\<close>, or already \<^verbatim>\<open>assert I_w >= -0.5\<close>)
  instead of returning it.
\<close>

theorem message_length_positive:
  "(message_length y mu cov weight responsibility nll ctype dofail = Inr I \<longrightarrow> ext_gt I 0)
   \<and> (ncols y \<noteq> 1 \<and> cov_matrices (ncols y) cov ctype = Some cov_m
        \<and> length cov_m = length responsibility
        \<and> parameters_per_mixture (ncols y) ctype = Inr N_cp
        \<and> \<not> ext_gt (total_length (length y) (ncols y) (map det cov_m) weight responsibility nll) 0
      \<longrightarrow> message_length y mu cov weight responsibility nll ctype dofail = Inl AssertionError)"
proof (intro conjI impI)
  assume "message_length y mu cov weight responsibility nll ctype dofail = Inr I"
  then show "ext_gt I 0"
    by (auto simp: message_length_def Let_def split: if_splits sum.splits option.splits)
next
  assume a: "ncols y \<noteq> 1 \<and> cov_matrices (ncols y) cov ctype = Some cov_m
        \<and> length cov_m = length responsibility
        \<and> parameters_per_mixture (ncols y) ctype = Inr N_cp
        \<and> \<not> ext_gt (total_length (length y) (ncols y) (map det cov_m) weight responsibility nll) 0"
  then show "message_length y mu cov weight responsibility nll ctype dofail = Inl AssertionError"
    by (simp add: message_length_def Let_def)
qed

text \<open>
  Two observations in the plane, one component with the identity covariance: with a
  negative log-likelihood of \<open>4\<close> the total is positive and is returned; with \<open>-10000\<close>
  the total is negative and the call raises.
\<close>

theorem message_length_positive_witness:
  "message_length [[0, 0], [1, 1]] [[1 / 2, 1 / 2]] [Full [[1, 0], [0, 1]]] [1] [[1, 1]] 4
     ''full'' False = Inr (Fin ((ln 5 - 4 * ln pi + 2 * 4 + 8 * ln 1000) / (2 * ln 2)))
   \<and> ext_gt (Fin ((ln 5 - 4 * ln pi + 2 * 4 + 8 * ln 1000) / (2 * ln 2))) 0
   \<and> message_length [[0, 0], [1, 1]] [[1 / 2, 1 / 2]] [Full [[1, 0], [0, 1]]] [1] [[1, 1]]
       (- 10000) ''full'' False = Inl AssertionError"
proof -
  note inst = message_length_positive
    [where y = "[[0, 0], [1, 1]]" and mu = "[[1 / 2, 1 / 2]]" and cov = "[Full [[1, 0], [0, 1]]]"
       and weight = "[1]" and responsibility = "[[1, 1]]" and ctype = "''full''"
       and dofail = False and N_cp = 5 and cov_m = "[[[1, 0], [0, 1]]]"]
  have ret: "message_length [[0, 0], [1, 1]] [[1 / 2, 1 / 2]] [Full [[1, 0], [0, 1]]] [1]
       [[1, 1]] 4 ''full'' False
     = Inr (Fin ((ln 5 - 4 * ln pi + 2 * 4 + 8 * ln 1000) / (2 * ln 2)))"
    using total_length_example_pos by (simp only: message_length_example if_True)
  have pos: "ext_gt (Fin ((ln 5 - 4 * ln pi + 2 * 4 + 8 * ln 1000) / (2 * ln 2))) 0"
    using inst [where nll = 4
        and I = "Fin ((ln 5 - 4 * ln pi + 2 * 4 + 8 * ln 1000) / (2 * ln 2))"] ret
    by blast
  have pre: "ncols [[0, 0], [1, 1 :: real]] \<noteq> 1
        \<and> cov_matrices (ncols [[0, 0], [1, 1 :: real]]) [Full [[1, 0], [0, 1]]] ''full''
            = Some [[[1, 0], [0, 1]]]
        \<and> length [[[1, 0], [0, 1 :: real]]] = length [[1, 1 :: real]]
        \<and> parameters_per_mixture (ncols [[0, 0], [1, 1 :: real]]) ''full'' = Inr 5
        \<and> \<not> ext_gt (total_length (length [[0, 0], [1, 1 :: real]]) (ncols [[0, 0], [1, 1 :: real]])
                  (map det [[[1, 0], [0, 1]]]) [1] [[1, 1]] (- 10000)) 0"
    unfolding example_facts using total_length_example_neg
    by (simp add: total_length_nll)
  have fails: "message_length [[0, 0], [1, 1]] [[1 / 2, 1 / 2]] [Full [[1, 0], [0, 1]]] [1]
       [[1, 1]] (- 10000) ''full'' False = Inl AssertionError"
    using inst [where nll = "- 10000"] pre by blast
  show ?thesis
    using ret pos fails by (intro conjI)
qed

lemma search_expectation_positive:
  "search_expectation y mu cov weight ctype dofail = Inr (R, ll, I) \<Longrightarrow> ext_gt I 0"
  by (auto simp: search_expectation_def message_length_def Let_def
      split: sum.splits if_splits option.splits prod.splits)

subsection \<open>The merge of two components\<close>

lemma less_inf_irrefl: "\<not> less_inf a a"
  by (cases a) simp_all

lemma less_inf_below: "less_inf c b \<Longrightarrow> \<not> less_inf a b \<Longrightarrow> less_inf c a"
  by (cases a; cases b; cases c) simp_all

lemma less_inf_not_above: "less_inf c b \<Longrightarrow> \<not> less_inf a b \<Longrightarrow> \<not> less_inf a c"
  by (cases a; cases b; cases c) simp_all

lemma argmin_from_spec:
  assumes "xs = pre @ vs" "length pre = i" "bi < i" "bv = xs ! bi"
    "\<forall>j<i. \<not> less_inf (xs ! j) bv" "\<forall>j<bi. less_inf bv (xs ! j)"
  shows "argmin_from bi bv i vs < length xs
       \<and> (\<forall>j<length xs. \<not> less_inf (xs ! j) (xs ! argmin_from bi bv i vs))
       \<and> (\<forall>j<argmin_from bi bv i vs. less_inf (xs ! argmin_from bi bv i vs) (xs ! j))"
  using assms
proof (induction vs arbitrary: pre i bi bv)
  case Nil
  then show ?case by simp
next
  case (Cons v vs)
  have v: "xs ! i = v" using Cons.prems(1,2) by (auto simp: nth_append)
  have split: "xs = (pre @ [v]) @ vs" "length (pre @ [v]) = Suc i" using Cons.prems(1,2) by simp_all
  show ?case
  proof (cases "less_inf v bv")
    case True
    have a: "\<forall>j<Suc i. \<not> less_inf (xs ! j) v"
    proof (intro allI impI)
      fix j assume "j < Suc i"
      then consider "j < i" | "j = i" by linarith
      then show "\<not> less_inf (xs ! j) v"
      proof cases
        case 1
        then show ?thesis using Cons.prems(5) True less_inf_not_above by blast
      next
        case 2
        then show ?thesis using v less_inf_irrefl by simp
      qed
    qed
    have b: "\<forall>j<i. less_inf v (xs ! j)"
      using Cons.prems(5) True less_inf_below by blast
    have "argmin_from i v (Suc i) vs < length xs
       \<and> (\<forall>j<length xs. \<not> less_inf (xs ! j) (xs ! argmin_from i v (Suc i) vs))
       \<and> (\<forall>j<argmin_from i v (Suc i) vs. less_inf (xs ! argmin_from i v (Suc i) vs) (xs ! j))"
      using split a b v by (intro Cons.IH [of "pre @ [v]"]) simp_all
    then show ?thesis using True by simp
  next
    case False
    have a: "\<forall>j<Suc i. \<not> less_inf (xs ! j) bv"
      using Cons.prems(5) False v less_Suc_eq by auto
    have "argmin_from bi bv (Suc i) vs < length xs
       \<and> (\<forall>j<length xs. \<not> less_inf (xs ! j) (xs ! argmin_from bi bv (Suc i) vs))
       \<and> (\<forall>j<argmin_from bi bv (Suc i) vs. less_inf (xs ! argmin_from bi bv (Suc i) vs) (xs ! j))"
      using split a Cons.prems(3,4,6) by (intro Cons.IH [of "pre @ [v]"]) simp_all
    then show ?thesis using False by simp
  qed
qed

lemma nanargmin_spec:
  assumes "xs \<noteq> []"
  shows "nanargmin xs < length xs
       \<and> (\<forall>j<length xs. \<not> less_inf (xs ! j) (xs ! nanargmin xs))
       \<and> (\<forall>j<nanargmin xs. less_inf (xs ! nanargmin xs) (xs ! j))"
proof -
  obtain v vs where xs: "xs = v # vs" using assms by (cases xs) auto
  have "argmin_from 0 v 1 vs < length xs
       \<and> (\<forall>j<length xs. \<not> less_inf (xs ! j) (xs ! argmin_from 0 v 1 vs))
       \<and> (\<forall>j<argmin_from 0 v 1 vs. less_inf (xs ! argmin_from 0 v 1 vs) (xs ! j))"
    using xs less_inf_irrefl by (intro argmin_from_spec [of xs "[v]"]) simp_all
  then show ?thesis using xs by (simp add: nanargmin_def)
qed


lemma length_np_delete: "i < length xs \<Longrightarrow> length (np_delete xs i) = length xs - 1"
  by (simp add: np_delete_def)

lemma nth_np_delete:
  "i < length xs \<Longrightarrow> m < length xs - 1 \<Longrightarrow>
   np_delete xs i ! m = xs ! (if m < i then m else Suc m)"
  by (auto simp: np_delete_def nth_append min_def)

lemma replaced_by_mergeI:
  assumes "a < length xs" "b < length xs" "a \<noteq> b"
  shows "replaced_by_merge xs a b v ((np_delete xs (max a b))[min a b := v])"
proof -
  have hi: "max a b < length xs" using assms by simp
  have lo: "min a b < length xs - 1" using assms by (auto simp: min_def max_def)
  have len: "length (np_delete xs (max a b)) = length xs - 1" using hi by (rule length_np_delete)
  show ?thesis
    unfolding replaced_by_merge_def list_all_iff
    using lo len nth_np_delete [OF hi] by (auto simp: nth_list_update)
qed

lemma ka_D_kl_spec:
  "ka_D_kl mu cov index ms = Inr ds \<Longrightarrow>
   length ds = length ms
   \<and> (\<forall>j<length ms. (ms ! j = index \<longrightarrow> ds ! j = None)
        \<and> (ms ! j \<noteq> index \<longrightarrow>
            (\<exists>d. kullback_leibler_for_multivariate_normals (mu ! index) (cov ! index)
                    (mu ! (ms ! j)) (cov ! (ms ! j)) = Inr d \<and> ds ! j = Some d)))"
proof (induction ms arbitrary: ds)
  case Nil
  then show ?case by simp
next
  case (Cons m ms)
  show ?case
  proof (cases "m = index")
    case True
    then obtain ds' where ds': "ka_D_kl mu cov index ms = Inr ds'" "ds = None # ds'"
      using Cons.prems by (auto split: sum.splits)
    show ?thesis using Cons.IH [OF ds'(1)] ds'(2) True by (auto simp: nth_Cons split: nat.splits)
  next
    case False
    then obtain d ds' where ds': "ka_D_kl mu cov index ms = Inr ds'" "ds = Some d # ds'"
      and d: "kullback_leibler_for_multivariate_normals (mu ! index) (cov ! index)
                (mu ! m) (cov ! m) = Inr d"
      using Cons.prems by (auto split: sum.splits)
    show ?thesis using Cons.IH [OF ds'(1)] ds'(2) d False
      by (auto simp: nth_Cons split: nat.splits)
  qed
qed

lemma search_D_kl_spec:
  "search_D_kl mu cov index ms = Inr ds \<Longrightarrow>
   length ds = length ms
   \<and> (\<forall>j<length ms. (ms ! j = index \<longrightarrow> ds ! j = None)
        \<and> (ms ! j \<noteq> index \<longrightarrow>
            (\<exists>d. search_kullback_leibler_for_multivariate_normals (mu ! index) (cov ! index)
                    (mu ! (ms ! j)) (cov ! (ms ! j)) = Inr d \<and> ds ! j = Some d)))"
proof (induction ms arbitrary: ds)
  case Nil
  then show ?case by simp
next
  case (Cons m ms)
  show ?case
  proof (cases "m = index")
    case True
    then obtain ds' where ds': "search_D_kl mu cov index ms = Inr ds'" "ds = None # ds'"
      using Cons.prems by (auto split: sum.splits)
    show ?thesis using Cons.IH [OF ds'(1)] ds'(2) True by (auto simp: nth_Cons split: nat.splits)
  next
    case False
    then obtain d ds' where ds': "search_D_kl mu cov index ms = Inr ds'" "ds = Some d # ds'"
      and d: "search_kullback_leibler_for_multivariate_normals (mu ! index) (cov ! index)
                (mu ! m) (cov ! m) = Inr d"
      using Cons.prems by (auto split: sum.splits)
    show ?thesis using Cons.IH [OF ds'(1)] ds'(2) d False
      by (auto simp: nth_Cons split: nat.splits)
  qed
qed

lemma closest_partner_nanargmin:
  assumes len: "length ds = K" and idx: "index < K" and K: "1 < K"
    and none: "ds ! index = None"
    and some: "\<forall>m<K. m \<noteq> index \<longrightarrow> (\<exists>d. distance m = Inr d \<and> ds ! m = Some d)"
  shows "closest_partner distance K index (nanargmin ds)"
proof -
  let ?b = "nanargmin ds"
  have ne: "ds \<noteq> []" using len K by auto
  note spec = nanargmin_spec [OF ne]
  have b: "?b < K" using spec len by simp
  obtain m0 where m0: "m0 < K" "m0 \<noteq> index" using K idx by (cases "index = 0") auto
  then obtain d0 where d0: "ds ! m0 = Some d0" using some by blast
  have bne: "?b \<noteq> index"
  proof
    assume "?b = index"
    then have "ds ! ?b = None" using none by simp
    moreover have "\<not> less_inf (ds ! m0) (ds ! ?b)" using spec m0(1) len by simp
    ultimately show False using d0 by simp
  qed
  then obtain db where db: "distance ?b = Inr db" "ds ! ?b = Some db" using some b by blast
  have "m = index \<or> (case distance m of Inl e \<Rightarrow> False
                      | Inr dm \<Rightarrow> db \<le> dm \<and> (m < ?b \<longrightarrow> db < dm))" if mK: "m < K" for m
  proof (cases "m = index")
    case True
    then show ?thesis by simp
  next
    case False
    then obtain dm where dm: "distance m = Inr dm" "ds ! m = Some dm" using some mK by blast
    have "\<not> less_inf (ds ! m) (ds ! ?b)" using spec mK len by simp
    then have le: "db \<le> dm" using dm db by simp
    have "db < dm" if mb: "m < ?b"
    proof -
      have "less_inf (ds ! ?b) (ds ! m)" using spec mb by simp
      then show ?thesis using dm db by simp
    qed
    then show ?thesis using dm le by simp
  qed
  then show ?thesis
    using b bne db by (simp add: closest_partner_def list_all_iff)
qed


lemma ka_merge_arrays_spec:
  assumes shape: "length mu = K" "length cov = K" "length weight = K" "length responsibility = K"
    and K: "1 < K"
    and ret: "ka_merge_arrays y mu cov weight responsibility index = Inr g"
  shows "closest_partner
           (\<lambda>m. kullback_leibler_for_multivariate_normals (mu ! index) (cov ! index)
                  (mu ! m) (cov ! m)) K index (partner g)
       \<and> (let rk = vadd (responsibility ! index) (responsibility ! partner g);
               mk = weighted_mean y rk (sum_list rk)
           in replaced_by_merge weight index (partner g)
                (weight ! index + weight ! partner g) (merged_weight g)
              \<and> replaced_by_merge responsibility index (partner g) rk (merged_responsibility g)
              \<and> replaced_by_merge mu index (partner g) mk (merged_mu g)
              \<and> replaced_by_merge cov index (partner g)
                   (weighted_cov y rk mk (sum_list rk - 1)) (merged_cov g))"
proof -
  from ret shape obtain ds where ds: "ka_D_kl mu cov index [0..<K] = Inr ds"
    and idx: "index < K"
    and g: "g = \<lparr>partner = nanargmin ds,
        merged_mu = (np_delete mu (max index (nanargmin ds)))
          [min index (nanargmin ds) :=
             weighted_mean y (vadd (responsibility ! index) (responsibility ! nanargmin ds))
               (sum_list (vadd (responsibility ! index) (responsibility ! nanargmin ds)))],
        merged_cov = (np_delete cov (max index (nanargmin ds)))
          [min index (nanargmin ds) :=
             weighted_cov y (vadd (responsibility ! index) (responsibility ! nanargmin ds))
               (weighted_mean y (vadd (responsibility ! index) (responsibility ! nanargmin ds))
                  (sum_list (vadd (responsibility ! index) (responsibility ! nanargmin ds))))
               (sum_list (vadd (responsibility ! index) (responsibility ! nanargmin ds)) - 1)],
        merged_weight = (np_delete weight (max index (nanargmin ds)))
          [min index (nanargmin ds) := weight ! index + weight ! nanargmin ds],
        merged_responsibility = (np_delete responsibility (max index (nanargmin ds)))
          [min index (nanargmin ds) :=
             vadd (responsibility ! index) (responsibility ! nanargmin ds)]\<rparr>"
    by (auto simp: ka_merge_arrays_def Let_def split: if_splits sum.splits)
  have spec: "length ds = K" "ds ! index = None"
    "\<forall>m<K. m \<noteq> index \<longrightarrow>
       (\<exists>d. kullback_leibler_for_multivariate_normals (mu ! index) (cov ! index)
               (mu ! m) (cov ! m) = Inr d \<and> ds ! m = Some d)"
    using ka_D_kl_spec [OF ds] idx by auto
  have cp: "closest_partner
           (\<lambda>m. kullback_leibler_for_multivariate_normals (mu ! index) (cov ! index)
                  (mu ! m) (cov ! m)) K index (nanargmin ds)"
    using spec(1) idx K spec(2,3) by (rule closest_partner_nanargmin)
  then have b: "nanargmin ds < K" "index \<noteq> nanargmin ds"
    by (auto simp: closest_partner_def)
  show ?thesis
    using cp b idx shape
    by (simp add: g Let_def replaced_by_mergeI)
qed

lemma estimate_single:
  "estimate_covariance_matrix y [r] [m] ctype reg = Inr cs \<Longrightarrow> \<exists>c. cs = [c]"
  by (auto simp: estimate_covariance_matrix_def estimate_covariance_matrix_full_def
      estimate_covariance_matrix_diag_def sum_axis1_def split: if_splits)

lemma search_merge_arrays_spec:
  assumes shape: "length mu = K" "length cov = K" "length weight = K" "length responsibility = K"
    and K: "1 < K"
    and ret: "search_merge_arrays y mu cov weight responsibility index kw = Inr g"
  shows "closest_partner
           (\<lambda>m. search_kullback_leibler_for_multivariate_normals (mu ! index) (cov ! index)
                  (mu ! m) (cov ! m)) K index (s_partner g)
       \<and> (let rk = vadd (responsibility ! index) (responsibility ! s_partner g);
               mk = weighted_mean y rk (sum_list rk)
           in replaced_by_merge weight index (s_partner g)
                (weight ! index + weight ! s_partner g) (s_merged_weight g)
              \<and> replaced_by_merge responsibility index (s_partner g) rk
                   (s_merged_responsibility g)
              \<and> replaced_by_merge mu index (s_partner g) mk (s_merged_mu g)
              \<and> (\<exists>c. estimate_covariance_matrix y [rk] [mk] (kw_covariance_type kw)
                         (kw_covariance_regularization kw) = Inr [Some c]
                    \<and> replaced_by_merge cov index (s_partner g) c (s_merged_cov g)))"
proof -
  from ret shape obtain ds where ds: "search_D_kl mu cov index [0..<K] = Inr ds"
    and idx: "index < K"
    by (auto simp: search_merge_arrays_def Let_def split: if_splits sum.splits)
  define b where "b = nanargmin ds"
  define rk where "rk = vadd (responsibility ! index) (responsibility ! b)"
  define mk where "mk = weighted_mean y rk (sum_list rk)"
  from ret ds idx shape obtain cs cs' where
    cs: "estimate_covariance_matrix y [rk] [mk] (kw_covariance_type kw)
           (kw_covariance_regularization kw) = Inr cs" "those cs = Some cs'"
    and g: "g = \<lparr>s_partner = b,
        s_merged_mu = (np_delete mu (max index b))[min index b := mk],
        s_merged_cov = (np_delete cov (max index b))[min index b := cs' ! 0],
        s_merged_weight = (np_delete weight (max index b))
          [min index b := weight ! index + weight ! b],
        s_merged_responsibility = (np_delete responsibility (max index b))[min index b := rk]\<rparr>"
    by (auto simp: search_merge_arrays_def Let_def b_def rk_def mk_def
        split: if_splits sum.splits option.splits)
  obtain c where c: "cs = [Some c]" "cs' ! 0 = c"
    using estimate_single [OF cs(1)] cs(2) by (auto split: option.splits)
  have spec: "length ds = K" "ds ! index = None"
    "\<forall>m<K. m \<noteq> index \<longrightarrow>
       (\<exists>d. search_kullback_leibler_for_multivariate_normals (mu ! index) (cov ! index)
               (mu ! m) (cov ! m) = Inr d \<and> ds ! m = Some d)"
    using search_D_kl_spec [OF ds] idx by auto
  have cp: "closest_partner
           (\<lambda>m. search_kullback_leibler_for_multivariate_normals (mu ! index) (cov ! index)
                  (mu ! m) (cov ! m)) K index b"
    unfolding b_def using spec(1) idx K spec(2,3) by (rule closest_partner_nanargmin)
  then have bb: "b < K" "index \<noteq> b"
    by (auto simp: closest_partner_def)
  show ?thesis
    using cp bb idx shape cs(1) c
    by (simp add: g Let_def replaced_by_mergeI rk_def [symmetric] mk_def [symmetric])
qed


text \<open>
  What \<^verbatim>\<open>merge_component\<close> does, with the distance the code computes. For a mixture of
  \<open>K > 1\<close> components, whenever \<^verbatim>\<open>merge_component\<close> gets as far as
  its E-M (no distance failed, no division by zero), it has computed the value of
  \<^verbatim>\<open>kullback_leibler_for_multivariate_normals\<close> from the component \<open>index\<close> to every
  other component and chosen as partner the one of least value, the first of them on a
  tie; the weights and the responsibility rows of the two are summed, one mean and one
  covariance are recomputed from the summed row, the entry at the higher of the two indices
  is deleted from the four arrays and the merged entry is written at the lower one; and the
  result of \<^verbatim>\<open>merge_component\<close> is the E-M run on these \<open>K - 1\<close> components. In
  \<^verbatim>\<open>mixture_ka\<close> and in \<^verbatim>\<open>mixture_search\<close> alike.
\<close>

lemma merge_component_partner_and_arrays:
  assumes "length mu = K" "length weight = K" "length responsibility = K" "1 < K"
  shows "(length cov = K \<and> ka_merge_arrays y mu cov weight responsibility index = Inr g \<longrightarrow>
            closest_partner
              (\<lambda>m. kullback_leibler_for_multivariate_normals (mu ! index) (cov ! index)
                     (mu ! m) (cov ! m)) K index (partner g)
            \<and> (let rk = vadd (responsibility ! index) (responsibility ! partner g);
                    mk = weighted_mean y rk (sum_list rk)
                in replaced_by_merge weight index (partner g)
                     (weight ! index + weight ! partner g) (merged_weight g)
                   \<and> replaced_by_merge responsibility index (partner g) rk
                        (merged_responsibility g)
                   \<and> replaced_by_merge mu index (partner g) mk (merged_mu g)
                   \<and> replaced_by_merge cov index (partner g)
                        (weighted_cov y rk mk (sum_list rk - 1)) (merged_cov g))
            \<and> ka_merge_component y mu cov weight responsibility index ctype th mx
                = ka_expectation_maximization y (merged_mu g) (merged_cov g) (merged_weight g)
                    (Some (merged_responsibility g)) ctype th mx None)
       \<and> (length cov_s = K
            \<and> search_merge_arrays y mu cov_s weight responsibility index kw = Inr g_s \<longrightarrow>
            closest_partner
              (\<lambda>m. search_kullback_leibler_for_multivariate_normals (mu ! index) (cov_s ! index)
                     (mu ! m) (cov_s ! m)) K index (s_partner g_s)
            \<and> (let rk = vadd (responsibility ! index) (responsibility ! s_partner g_s);
                    mk = weighted_mean y rk (sum_list rk)
                in replaced_by_merge weight index (s_partner g_s)
                     (weight ! index + weight ! s_partner g_s) (s_merged_weight g_s)
                   \<and> replaced_by_merge responsibility index (s_partner g_s) rk
                        (s_merged_responsibility g_s)
                   \<and> replaced_by_merge mu index (s_partner g_s) mk (s_merged_mu g_s)
                   \<and> (\<exists>c. estimate_covariance_matrix y [rk] [mk] (kw_covariance_type kw)
                              (kw_covariance_regularization kw) = Inr [Some c]
                         \<and> replaced_by_merge cov_s index (s_partner g_s) c (s_merged_cov g_s)))
            \<and> search_merge_component y mu cov_s weight responsibility index kw
                = search_expectation_maximization y (s_merged_mu g_s) (s_merged_cov g_s)
                    (s_merged_weight g_s) (Some (s_merged_responsibility g_s)) None kw)"
proof (intro conjI impI)
  assume a: "length cov = K \<and> ka_merge_arrays y mu cov weight responsibility index = Inr g"
  then have ret: "ka_merge_arrays y mu cov weight responsibility index = Inr g"
    and lc: "length cov = K" by simp_all
  note spec = ka_merge_arrays_spec [OF assms(1) lc assms(2,3,4) ret]
  show "closest_partner
          (\<lambda>m. kullback_leibler_for_multivariate_normals (mu ! index) (cov ! index)
                 (mu ! m) (cov ! m)) K index (partner g)"
    using spec by (rule conjunct1)
  show "let rk = vadd (responsibility ! index) (responsibility ! partner g);
            mk = weighted_mean y rk (sum_list rk)
        in replaced_by_merge weight index (partner g)
             (weight ! index + weight ! partner g) (merged_weight g)
           \<and> replaced_by_merge responsibility index (partner g) rk (merged_responsibility g)
           \<and> replaced_by_merge mu index (partner g) mk (merged_mu g)
           \<and> replaced_by_merge cov index (partner g)
                (weighted_cov y rk mk (sum_list rk - 1)) (merged_cov g)"
    using spec by (rule conjunct2)
  show "ka_merge_component y mu cov weight responsibility index ctype th mx
          = ka_expectation_maximization y (merged_mu g) (merged_cov g) (merged_weight g)
              (Some (merged_responsibility g)) ctype th mx None"
    using ret by (simp add: ka_merge_component_def)
next
  assume a: "length cov_s = K
             \<and> search_merge_arrays y mu cov_s weight responsibility index kw = Inr g_s"
  then have ret: "search_merge_arrays y mu cov_s weight responsibility index kw = Inr g_s"
    and lc: "length cov_s = K" by simp_all
  note spec = search_merge_arrays_spec [OF assms(1) lc assms(2,3,4) ret]
  show "closest_partner
          (\<lambda>m. search_kullback_leibler_for_multivariate_normals (mu ! index) (cov_s ! index)
                 (mu ! m) (cov_s ! m)) K index (s_partner g_s)"
    using spec by (rule conjunct1)
  show "let rk = vadd (responsibility ! index) (responsibility ! s_partner g_s);
            mk = weighted_mean y rk (sum_list rk)
        in replaced_by_merge weight index (s_partner g_s)
             (weight ! index + weight ! s_partner g_s) (s_merged_weight g_s)
           \<and> replaced_by_merge responsibility index (s_partner g_s) rk
                (s_merged_responsibility g_s)
           \<and> replaced_by_merge mu index (s_partner g_s) mk (s_merged_mu g_s)
           \<and> (\<exists>c. estimate_covariance_matrix y [rk] [mk] (kw_covariance_type kw)
                      (kw_covariance_regularization kw) = Inr [Some c]
                 \<and> replaced_by_merge cov_s index (s_partner g_s) c (s_merged_cov g_s))"
    using spec by (rule conjunct2)
  show "search_merge_component y mu cov_s weight responsibility index kw
          = search_expectation_maximization y (s_merged_mu g_s) (s_merged_cov g_s)
              (s_merged_weight g_s) (Some (s_merged_responsibility g_s)) None kw"
    using ret by (simp add: search_merge_component_def)
qed

text \<open>
  Three unit-variance components at \<open>0\<close>, \<open>1\<close> and \<open>2\<close>, each holding one observation.
  Merging the middle one: both neighbours are at distance \<open>1/2\<close> and the first, component
  \<open>0\<close>, is the partner; the merged component takes index \<open>0\<close> with weight \<open>2/3\<close>, mean
  \<open>1/2\<close> and variance \<open>1/2\<close>.
\<close>

lemma upt_3: "[0..<3] = [0, 1, 2]"
  by code_simp

lemma kl_example:
  "kullback_leibler_for_multivariate_normals [1] [[1]] [0] [[1]] = Inr (1 / 2)"
  "kullback_leibler_for_multivariate_normals [1] [[1]] [2] [[1]] = Inr (1 / 2)"
  by (simp_all add: kl_one_dimension)

lemma ka_merge_example:
  "ka_merge_arrays [[0], [1], [2]] [[0], [1], [2]] [[[1]], [[1]], [[1]]] [1 / 3, 1 / 3, 1 / 3]
     [[1, 0, 0], [0, 1, 0], [0, 0, 1]] 1
   = Inr \<lparr>partner = 0, merged_mu = [[1 / 2], [2]], merged_cov = [[[1 / 2]], [[1]]],
          merged_weight = [2 / 3, 1 / 3], merged_responsibility = [[1, 1, 0], [0, 0, 1]]\<rparr>"
  by (simp add: ka_merge_arrays_def upt_3 kl_example nanargmin_def vadd_def np_delete_def
      weighted_mean_def weighted_cov_def scatter_def ncols_def vsub_def Let_def
      power2_eq_square)


lemma search_merge_example:
  "search_merge_arrays [[0], [1], [2]] [[0], [1], [2]] [Full [[1]], Full [[1]], Full [[1]]]
     [1 / 3, 1 / 3, 1 / 3] [[1, 0, 0], [0, 1, 0], [0, 0, 1]] 1
     \<lparr>kw_threshold = 1 / 10 ^ 5, kw_max_em_iterations = 10000, kw_covariance_type = ''full'',
      kw_covariance_regularization = 0, kw_dofail = False\<rparr>
   = Inr \<lparr>s_partner = 0, s_merged_mu = [[1 / 2], [2]],
          s_merged_cov = [Full [[1 / 2]], Full [[1]]],
          s_merged_weight = [2 / 3, 1 / 3],
          s_merged_responsibility = [[1, 1, 0], [0, 0, 1]]\<rparr>"
  by (simp add: search_merge_arrays_def upt_3 kl_example nanargmin_def vadd_def np_delete_def
      search_kullback_leibler_for_multivariate_normals_def as_matrix_def
      weighted_mean_def estimate_covariance_matrix_def estimate_covariance_matrix_full_def
      cov_full_row_def denominator_def sum_axis1_def eye_def scatter_def ncols_def vsub_def
      Let_def power2_eq_square)

lemma merge_component_partner_and_arrays_witness:
  "ka_merge_arrays [[0], [1], [2]] [[0], [1], [2]] [[[1]], [[1]], [[1]]] [1 / 3, 1 / 3, 1 / 3]
     [[1, 0, 0], [0, 1, 0], [0, 0, 1]] 1
   = Inr \<lparr>partner = 0, merged_mu = [[1 / 2], [2]], merged_cov = [[[1 / 2]], [[1]]],
          merged_weight = [2 / 3, 1 / 3], merged_responsibility = [[1, 1, 0], [0, 0, 1]]\<rparr>
   \<and> closest_partner
        (\<lambda>m. kullback_leibler_for_multivariate_normals ([[0], [1], [2]] ! 1)
               ([[[1]], [[1]], [[1]]] ! 1) ([[0], [1], [2]] ! m) ([[[1]], [[1]], [[1]]] ! m))
        3 1 0
   \<and> replaced_by_merge [1 / 3, 1 / 3, 1 / 3 :: real] 1 0 (2 / 3) [2 / 3, 1 / 3]
   \<and> replaced_by_merge [[1, 0, 0], [0, 1, 0], [0, 0, 1 :: real]] 1 0 [1, 1, 0]
        [[1, 1, 0], [0, 0, 1]]
   \<and> search_merge_arrays [[0], [1], [2]] [[0], [1], [2]] [Full [[1]], Full [[1]], Full [[1]]]
       [1 / 3, 1 / 3, 1 / 3] [[1, 0, 0], [0, 1, 0], [0, 0, 1]] 1
       \<lparr>kw_threshold = 1 / 10 ^ 5, kw_max_em_iterations = 10000, kw_covariance_type = ''full'',
        kw_covariance_regularization = 0, kw_dofail = False\<rparr>
     = Inr \<lparr>s_partner = 0, s_merged_mu = [[1 / 2], [2]],
            s_merged_cov = [Full [[1 / 2]], Full [[1]]],
            s_merged_weight = [2 / 3, 1 / 3],
            s_merged_responsibility = [[1, 1, 0], [0, 0, 1]]\<rparr>
   \<and> closest_partner
        (\<lambda>m. search_kullback_leibler_for_multivariate_normals ([[0], [1], [2]] ! 1)
               ([Full [[1]], Full [[1]], Full [[1]]] ! 1) ([[0], [1], [2]] ! m)
               ([Full [[1]], Full [[1]], Full [[1]]] ! m))
        3 1 0"
proof -
  have len: "length [[0], [1], [2 :: real]] = 3" "length [1 / 3, 1 / 3, 1 / 3 :: real] = 3"
    "length [[1, 0, 0], [0, 1, 0], [0, 0, 1 :: real]] = 3" "(1 :: nat) < 3"
    by simp_all
  note inst = merge_component_partner_and_arrays [OF len,
      where y = "[[0], [1], [2]]" and index = 1
        and cov = "[[[1]], [[1]], [[1]]]"
        and g = "\<lparr>partner = 0, merged_mu = [[1 / 2], [2]], merged_cov = [[[1 / 2]], [[1]]],
                  merged_weight = [2 / 3, 1 / 3],
                  merged_responsibility = [[1, 1, 0], [0, 0, 1]]\<rparr>"
        and cov_s = "[Full [[1]], Full [[1]], Full [[1]]]"
        and kw = "\<lparr>kw_threshold = 1 / 10 ^ 5, kw_max_em_iterations = 10000,
                   kw_covariance_type = ''full'', kw_covariance_regularization = 0,
                   kw_dofail = False\<rparr>"
        and g_s = "\<lparr>s_partner = 0, s_merged_mu = [[1 / 2], [2]],
                    s_merged_cov = [Full [[1 / 2]], Full [[1]]],
                    s_merged_weight = [2 / 3, 1 / 3],
                    s_merged_responsibility = [[1, 1, 0], [0, 0, 1]]\<rparr>"]
  have ka: "closest_partner
        (\<lambda>m. kullback_leibler_for_multivariate_normals ([[0], [1], [2]] ! 1)
               ([[[1]], [[1]], [[1]]] ! 1) ([[0], [1], [2]] ! m) ([[[1]], [[1]], [[1]]] ! m))
        3 1 0
     \<and> replaced_by_merge [1 / 3, 1 / 3, 1 / 3 :: real] 1 0 (2 / 3) [2 / 3, 1 / 3]
     \<and> replaced_by_merge [[1, 0, 0], [0, 1, 0], [0, 0, 1 :: real]] 1 0 [1, 1, 0]
          [[1, 1, 0], [0, 0, 1]]"
    using inst [THEN conjunct1] ka_merge_example by (simp add: Let_def vadd_def)
  have se: "closest_partner
        (\<lambda>m. search_kullback_leibler_for_multivariate_normals ([[0], [1], [2]] ! 1)
               ([Full [[1]], Full [[1]], Full [[1]]] ! 1) ([[0], [1], [2]] ! m)
               ([Full [[1]], Full [[1]], Full [[1]]] ! m))
        3 1 0"
    using inst [THEN conjunct2] search_merge_example by simp
  show ?thesis
    using ka se ka_merge_example search_merge_example by (intro conjI) simp_all
qed

subsection \<open>The partner of a merge and the Kullback-Leibler divergence\<close>

lemma divergence_one_dimension:
  assumes "0 < a" "0 < b"
  shows "kullback_leibler_divergence [m] [[a]] [n] [[b]]
         = Inr (1 / 2 * (a / b + (n - m) * ((n - m) / b) - 1 + ln (b / a)))"
  using assms
  by (simp add: kullback_leibler_divergence_def svd_inverse_one_by_one
      trace_def mat_mul_def mat_vec_def vdot_def vmul_def vsub_def column_def ncols_def Let_def
      not_le)

lemma ln_16_bounds: "0 < ln (16 :: real)" "ln (16 :: real) < 4"
proof -
  show "0 < ln (16 :: real)" by simp
  have "ln (16 :: real) = ln (2 ^ 4)" by simp
  also have "\<dots> = 4 * ln 2" by (simp only: ln_realpow)
  also have "\<dots> < 4" using ln_2_less_1 by simp
  finally show "ln (16 :: real) < 4" .
qed

lemma code_distances:
  "kullback_leibler_for_multivariate_normals [0] [[1]] [0] [[16]] = Inr (15 / 2 + ln 16 / 2)"
  "kullback_leibler_for_multivariate_normals [0] [[1]] [0] [[1 / 16]]
     = Inr (- 15 / 32 - ln 16 / 2)"
  by (simp_all add: kl_one_dimension ln_div)

lemma divergences:
  "kullback_leibler_divergence [0] [[1]] [0] [[16]] = Inr (- 15 / 32 + ln 16 / 2)"
  "kullback_leibler_divergence [0] [[1]] [0] [[1 / 16]] = Inr (15 / 2 - ln 16 / 2)"
  by (simp_all add: divergence_one_dimension ln_div)

lemma code_order: "- 15 / 32 - ln 16 / 2 < 15 / 2 + ln (16 :: real) / 2"
  using ln_16_bounds by linarith

lemma divergence_order: "- 15 / 32 + ln 16 / 2 < 15 / 2 - ln (16 :: real) / 2"
  using ln_16_bounds by linarith

lemma ka_merge_wrong_partner:
  "ka_merge_arrays [[- 1], [1], [- 1], [1]] [[0], [0], [0]] [[[1]], [[16]], [[1 / 16]]]
     [1 / 3, 1 / 3, 1 / 3] [[1 / 3, 1 / 3, 1 / 3, 1 / 3], [1 / 3, 1 / 3, 1 / 3, 1 / 3],
      [1 / 3, 1 / 3, 1 / 3, 1 / 3]] 0
   = Inr \<lparr>partner = 2, merged_mu = [[0], [0]], merged_cov = [[[8 / 5]], [[16]]],
          merged_weight = [2 / 3, 1 / 3], merged_responsibility =
            [[2 / 3, 2 / 3, 2 / 3, 2 / 3], [1 / 3, 1 / 3, 1 / 3, 1 / 3]]\<rparr>"
  using code_order
  by (simp add: ka_merge_arrays_def upt_3 code_distances nanargmin_def vadd_def np_delete_def
      weighted_mean_def weighted_cov_def scatter_def ncols_def vsub_def Let_def
      power2_eq_square)

lemma search_merge_wrong_partner:
  "search_merge_arrays [[- 1], [1], [- 1], [1]] [[0], [0], [0]]
     [Full [[1]], Full [[16]], Full [[1 / 16]]]
     [1 / 3, 1 / 3, 1 / 3] [[1 / 3, 1 / 3, 1 / 3, 1 / 3], [1 / 3, 1 / 3, 1 / 3, 1 / 3],
      [1 / 3, 1 / 3, 1 / 3, 1 / 3]] 0
     \<lparr>kw_threshold = 1 / 10 ^ 5, kw_max_em_iterations = 10000, kw_covariance_type = ''full'',
      kw_covariance_regularization = 0, kw_dofail = False\<rparr>
   = Inr \<lparr>s_partner = 2, s_merged_mu = [[0], [0]],
          s_merged_cov = [Full [[8 / 5]], Full [[16]]],
          s_merged_weight = [2 / 3, 1 / 3],
          s_merged_responsibility =
            [[2 / 3, 2 / 3, 2 / 3, 2 / 3], [1 / 3, 1 / 3, 1 / 3, 1 / 3]]\<rparr>"
  using code_order
  by (simp add: search_merge_arrays_def upt_3 code_distances nanargmin_def vadd_def np_delete_def
      search_kullback_leibler_for_multivariate_normals_def as_matrix_def
      weighted_mean_def estimate_covariance_matrix_def estimate_covariance_matrix_full_def
      cov_full_row_def denominator_def sum_axis1_def eye_def scatter_def ncols_def vsub_def
      Let_def power2_eq_square)

text \<open>
  C5. The partner \<^verbatim>\<open>merge_component\<close> picks is not always the component of least
  Kullback-Leibler divergence. Three components on the line, all of mean \<open>0\<close>, of
  variances \<open>1\<close>, \<open>16\<close> and \<open>1/16\<close>, each holding a third of every one of the four
  observations \<open>-1\<close>, \<open>1\<close>, \<open>-1\<close>, \<open>1\<close>, and the merge of component \<open>0\<close>. The divergence
  from it to component \<open>1\<close> is \<open>-15/32 + ln 16 / 2\<close>, about \<open>0.92\<close>, and to component
  \<open>2\<close> it is \<open>15/2 - ln 16 / 2\<close>, about \<open>6.11\<close>: component \<open>1\<close> is the closest. The code,
  whose distance takes the trace of \<open>\<Sigma>\<^sub>a\<^sup>-\<^sup>1 \<Sigma>\<^sub>b\<close>, computes \<open>15/2 + ln 16 / 2\<close> and
  \<open>-15/32 - ln 16 / 2\<close> and merges component \<open>0\<close> with component \<open>2\<close>, in
  \<^verbatim>\<open>mixture_ka\<close> and in \<^verbatim>\<open>mixture_search\<close> alike. The other steps of the merge are as
  the lemma \<open>merge_component_partner_and_arrays\<close> has them.
\<close>

theorem merge_partner_not_closest:
  "ka_merge_arrays [[- 1], [1], [- 1], [1]] [[0], [0], [0]] [[[1]], [[16]], [[1 / 16]]]
     [1 / 3, 1 / 3, 1 / 3] [[1 / 3, 1 / 3, 1 / 3, 1 / 3], [1 / 3, 1 / 3, 1 / 3, 1 / 3],
      [1 / 3, 1 / 3, 1 / 3, 1 / 3]] 0
   = Inr \<lparr>partner = 2, merged_mu = [[0], [0]], merged_cov = [[[8 / 5]], [[16]]],
          merged_weight = [2 / 3, 1 / 3], merged_responsibility =
            [[2 / 3, 2 / 3, 2 / 3, 2 / 3], [1 / 3, 1 / 3, 1 / 3, 1 / 3]]\<rparr>
   \<and> search_merge_arrays [[- 1], [1], [- 1], [1]] [[0], [0], [0]]
       [Full [[1]], Full [[16]], Full [[1 / 16]]]
       [1 / 3, 1 / 3, 1 / 3] [[1 / 3, 1 / 3, 1 / 3, 1 / 3], [1 / 3, 1 / 3, 1 / 3, 1 / 3],
      [1 / 3, 1 / 3, 1 / 3, 1 / 3]] 0
       \<lparr>kw_threshold = 1 / 10 ^ 5, kw_max_em_iterations = 10000, kw_covariance_type = ''full'',
        kw_covariance_regularization = 0, kw_dofail = False\<rparr>
     = Inr \<lparr>s_partner = 2, s_merged_mu = [[0], [0]],
            s_merged_cov = [Full [[8 / 5]], Full [[16]]],
            s_merged_weight = [2 / 3, 1 / 3],
            s_merged_responsibility =
            [[2 / 3, 2 / 3, 2 / 3, 2 / 3], [1 / 3, 1 / 3, 1 / 3, 1 / 3]]\<rparr>
   \<and> closest_partner
        (\<lambda>m. kullback_leibler_divergence ([[0], [0], [0]] ! 0) ([[[1]], [[16]], [[1 / 16]]] ! 0)
               ([[0], [0], [0]] ! m) ([[[1]], [[16]], [[1 / 16]]] ! m)) 3 0 1
   \<and> \<not> closest_partner
        (\<lambda>m. kullback_leibler_divergence ([[0], [0], [0]] ! 0) ([[[1]], [[16]], [[1 / 16]]] ! 0)
               ([[0], [0], [0]] ! m) ([[[1]], [[16]], [[1 / 16]]] ! m)) 3 0 2"
proof -
  have a: "closest_partner
        (\<lambda>m. kullback_leibler_divergence ([[0], [0], [0]] ! 0) ([[[1]], [[16]], [[1 / 16]]] ! 0)
               ([[0], [0], [0]] ! m) ([[[1]], [[16]], [[1 / 16]]] ! m)) 3 0 1"
    using divergence_order by (simp add: closest_partner_def upt_3 divergences)
  have b: "\<not> closest_partner
        (\<lambda>m. kullback_leibler_divergence ([[0], [0], [0]] ! 0) ([[[1]], [[16]], [[1 / 16]]] ! 0)
               ([[0], [0], [0]] ! m) ([[[1]], [[16]], [[1 / 16]]] ! m)) 3 0 2"
    using divergence_order by (simp add: closest_partner_def upt_3 divergences)
  show ?thesis
    using ka_merge_wrong_partner search_merge_wrong_partner a b by (intro conjI)
qed

text \<open>
  The two divergences in numbers: the one to component \<open>1\<close> is the smaller, so
  component \<open>1\<close> is the closest partner of component \<open>0\<close>, and component \<open>2\<close>, the
  partner the code takes, is not.
\<close>

theorem merge_partner_not_closest_witness:
  "kullback_leibler_divergence [0] [[1]] [0] [[16]] = Inr (- 15 / 32 + ln 16 / 2)
   \<and> kullback_leibler_divergence [0] [[1]] [0] [[1 / 16]] = Inr (15 / 2 - ln 16 / 2)
   \<and> - 15 / 32 + ln 16 / 2 < 15 / 2 - ln (16 :: real) / 2
   \<and> closest_partner
        (\<lambda>m. kullback_leibler_divergence ([[0], [0], [0]] ! 0) ([[[1]], [[16]], [[1 / 16]]] ! 0)
               ([[0], [0], [0]] ! m) ([[[1]], [[16]], [[1 / 16]]] ! m)) 3 0 1
   \<and> \<not> closest_partner
        (\<lambda>m. kullback_leibler_divergence ([[0], [0], [0]] ! 0) ([[[1]], [[16]], [[1 / 16]]] ! 0)
               ([[0], [0], [0]] ! m) ([[[1]], [[16]], [[1 / 16]]] ! m)) 3 0 2"
proof -
  note inst = merge_partner_not_closest
  have a: "closest_partner
        (\<lambda>m. kullback_leibler_divergence ([[0], [0], [0]] ! 0) ([[[1]], [[16]], [[1 / 16]]] ! 0)
               ([[0], [0], [0]] ! m) ([[[1]], [[16]], [[1 / 16]]] ! m)) 3 0 1"
    using inst by (elim conjE)
  have b: "\<not> closest_partner
        (\<lambda>m. kullback_leibler_divergence ([[0], [0], [0]] ! 0) ([[[1]], [[16]], [[1 / 16]]] ! 0)
               ([[0], [0], [0]] ! m) ([[[1]], [[16]], [[1 / 16]]] ! m)) 3 0 2"
    using inst by (elim conjE)
  show ?thesis
    using divergences divergence_order a b by (intro conjI)
qed

subsection \<open>The round of the search loop\<close>














lemma same_sizeI:
  "length mu = K \<Longrightarrow> length cov = K \<Longrightarrow> length weight = K \<Longrightarrow> length R = K \<Longrightarrow>
   same_size K (mu, cov, weight, R, meta, dl)"
  by (simp add: same_size_def)

































end
